theory Spec2Isabelle
  imports Main "HOL-Library.Sublist"
begin

section \<open>Python strings\<close>

text \<open>
  A Python \<open>str\<close> is modelled as a \<open>string\<close> in which one \<open>char\<close> stands for one
  code point below 256, so that \<open>length\<close> is Python's \<open>len\<close>. The functions below are
  the builtins the source calls, restricted to that range of code points.
\<close>

definition isspace :: "char \<Rightarrow> bool" where
  \<comment> \<open>\<open>str.isspace\<close> on one character: TAB..CR, FS..US, space, NEL and NBSP.\<close>
  "isspace c =
     (let n = (of_char c :: nat)
      in (9 \<le> n \<and> n \<le> 13) \<or> (28 \<le> n \<and> n \<le> 32) \<or> n = 133 \<or> n = 160)"

definition lower_char :: "char \<Rightarrow> char" where
  \<comment> \<open>\<open>str.lower\<close> on one character: A..Z, and the capital letters 0xC0..0xDE but 0xD7.\<close>
  "lower_char c =
     (let n = (of_char c :: nat)
      in if (65 \<le> n \<and> n \<le> 90) \<or> (192 \<le> n \<and> n \<le> 222 \<and> n \<noteq> 215)
         then char_of (n + 32) else c)"

definition lower :: "string \<Rightarrow> string" where
  "lower s = map lower_char s"

definition contains :: "string \<Rightarrow> string \<Rightarrow> bool" where
  \<comment> \<open>\<open>sub in s\<close>: \<open>sub\<close> occurs in \<open>s\<close> as a contiguous run.\<close>
  "contains sub s = sublist sub s"

fun split_sep_from :: "char \<Rightarrow> string \<Rightarrow> string \<Rightarrow> string list" where
  "split_sep_from sep cur [] = [cur]"
| "split_sep_from sep cur (x # xs) =
     (if x = sep then cur # split_sep_from sep [] xs
      else split_sep_from sep (cur @ [x]) xs)"

definition split_sep :: "char \<Rightarrow> string \<Rightarrow> string list" where
  \<comment> \<open>\<open>s.split(sep)\<close> for a one-character separator: empty segments are kept.\<close>
  "split_sep sep s = split_sep_from sep [] s"

fun split_ws_from :: "string \<Rightarrow> string \<Rightarrow> string list" where
  "split_ws_from cur [] = (if cur = [] then [] else [cur])"
| "split_ws_from cur (x # xs) =
     (if isspace x
      then (if cur = [] then split_ws_from [] xs else cur # split_ws_from [] xs)
      else split_ws_from (cur @ [x]) xs)"

definition split_ws :: "string \<Rightarrow> string list" where
  \<comment> \<open>\<open>s.split()\<close>: runs of whitespace separate, and no token is empty.\<close>
  "split_ws s = split_ws_from [] s"

fun count_tokens :: "bool \<Rightarrow> string \<Rightarrow> nat" where
  \<comment> \<open>The number of maximal runs of non-whitespace characters; the flag says that
      the previous character was whitespace (or that the text starts here).\<close>
  "count_tokens prev_space [] = 0"
| "count_tokens prev_space (x # xs) =
     (if isspace x then count_tokens True xs
      else (if prev_space then 1 else 0) + count_tokens False xs)"

fun join :: "string \<Rightarrow> string list \<Rightarrow> string" where
  \<comment> \<open>\<open>sep.join(parts)\<close>\<close>
  "join sep [] = []"
| "join sep [x] = x"
| "join sep (x # y # ys) = x @ sep @ join sep (y # ys)"

definition strip :: "string \<Rightarrow> string" where
  \<comment> \<open>\<open>s.strip()\<close>\<close>
  "strip s = rev (dropWhile isspace (rev (dropWhile isspace s)))"

section \<open>The chunk-splitting and analysis toolkit (semantic\_text\_splitting.py)\<close>

subsection \<open>analyze\_chunks\<close>

text \<open>
  One row of the list that \<open>analyze_chunks\<close> hands to \<open>pd.DataFrame\<close>; the field
  \<open>length\<close> of the source is \<open>chunk_length\<close> here.
\<close>

record chunk_analysis =
  chunk_id :: nat
  chunk_length :: nat
  sentences :: nat
  words :: nat
  preview :: string

definition analysis_row :: "nat \<Rightarrow> string \<Rightarrow> chunk_analysis" where
  "analysis_row i chunk =
     \<lparr>chunk_id = i,
      chunk_length = length chunk,
      sentences = length (split_sep CHR ''.'' chunk),
      words = length (split_ws chunk),
      preview = take 100 chunk @ ''...''\<rparr>"

fun analyze_loop :: "nat \<Rightarrow> string list \<Rightarrow> chunk_analysis list \<Rightarrow> chunk_analysis list" where
  \<comment> \<open>\<open>for i, chunk in enumerate(chunks): analysis.append({...})\<close>\<close>
  "analyze_loop i [] analysis = analysis"
| "analyze_loop i (chunk # chunks) analysis =
     analyze_loop (Suc i) chunks (analysis @ [analysis_row i chunk])"

definition analyze_chunks :: "string list \<Rightarrow> chunk_analysis list" where
  \<comment> \<open>The rows of the returned data frame, in their order.\<close>
  "analyze_chunks chunks = analyze_loop 0 chunks []"

subsection \<open>split\_by\_topics\<close>

definition topic_indicators :: "string list" where
  "topic_indicators =
     [''AUTO INSURANCE'', ''LIFE INSURANCE'', ''PROPERTY INSURANCE'',
      ''LIABILITY INSURANCE'', ''WORKERS COMPENSATION'', ''HEALTH INSURANCE'']"

fun scan_indicators :: "string list \<Rightarrow> string \<Rightarrow> string \<Rightarrow> string" where
  \<comment> \<open>\<open>for indicator in topic_indicators: if indicator.lower() in text.lower():
      current_topic = indicator\<close>\<close>
  "scan_indicators [] text current_topic = current_topic"
| "scan_indicators (indicator # rest) text current_topic =
     scan_indicators rest text
       (if contains (lower indicator) (lower text) then indicator else current_topic)"

text \<open>
  The dict \<open>topics\<close> keeps its keys in insertion order, which the result shows: it is
  an association list with one entry per key.
\<close>

type_synonym topics_dict = "(string \<times> string list) list"

fun append_to :: "string \<Rightarrow> string \<Rightarrow> topics_dict \<Rightarrow> topics_dict" where
  \<comment> \<open>\<open>topics[key].append(text)\<close> for a key that is present\<close>
  "append_to key text [] = []"
| "append_to key text ((k, chunks) # rest) =
     (if k = key then (k, chunks @ [text]) # rest
      else (k, chunks) # append_to key text rest)"

fun topics_loop :: "string list \<Rightarrow> topics_dict \<Rightarrow> string \<Rightarrow> topics_dict" where
  \<comment> \<open>the loop over \<open>base_nodes\<close>, on the text of each node\<close>
  "topics_loop [] topics current_topic = topics"
| "topics_loop (text # rest) topics current_topic =
     (let current_topic' = scan_indicators topic_indicators text current_topic;
          topics' = (if current_topic' \<notin> set (map fst topics)
                     then topics @ [(current_topic', [])] else topics)
      in topics_loop rest (append_to current_topic' text topics') current_topic')"

record topic_chunk =
  topic :: string
  content :: string
  chunk_count :: nat

definition format_topic :: "string \<times> string list \<Rightarrow> topic_chunk" where
  "format_topic kv =
     \<lparr>topic = fst kv, content = join '' '' (snd kv), chunk_count = length (snd kv)\<rparr>"

definition group_by_topic :: "string list \<Rightarrow> topic_chunk list" where
  \<comment> \<open>the body of \<open>split_by_topics\<close>, given the texts of the base nodes\<close>
  "group_by_topic node_texts = map format_topic (topics_loop node_texts [] ''General'')"

definition split_by_topics :: "(string \<Rightarrow> string list) \<Rightarrow> string \<Rightarrow> topic_chunk list" where
  \<comment> \<open>\<open>sentence_parser\<close> is llama-index's sentence splitter of the instance: it gives
      the texts of the base nodes of a document.\<close>
  "split_by_topics sentence_parser text = group_by_topic (sentence_parser text)"

subsection \<open>The topic assignment as the specification words it\<close>

text \<open>
  The specification describes \<open>split_by_topics\<close> as a single pass with a current topic.
  The following definitions say that in its words; they are compared with the loop of
  the source below.
\<close>

definition spec_markers_in :: "string \<Rightarrow> string list" where
  \<comment> \<open>the fixed markers that occur in a chunk, case-insensitively\<close>
  "spec_markers_in text = filter (\<lambda>m. contains (lower m) (lower text)) topic_indicators"

definition spec_topic_after :: "string \<Rightarrow> string \<Rightarrow> string" where
  \<comment> \<open>the current topic after scanning a chunk: unchanged when no marker occurs\<close>
  "spec_topic_after current text =
     (if spec_markers_in text = [] then current else last (spec_markers_in text))"

fun spec_current_topics :: "string \<Rightarrow> string list \<Rightarrow> string list" where
  \<comment> \<open>for each chunk, the topic that is current after scanning it\<close>
  "spec_current_topics current [] = []"
| "spec_current_topics current (text # rest) =
     spec_topic_after current text # spec_current_topics (spec_topic_after current text) rest"

fun first_seen :: "'a list \<Rightarrow> 'a list" where
  \<comment> \<open>the distinct elements of a list, in the order of their first occurrence\<close>
  "first_seen [] = []"
| "first_seen (x # xs) = x # filter (\<lambda>y. y \<noteq> x) (first_seen xs)"

definition chunks_of :: "string \<Rightarrow> (string \<times> string) list \<Rightarrow> string list" where
  \<comment> \<open>the chunks paired with topic \<open>t\<close>, in their order\<close>
  "chunks_of t ps = map snd (filter (\<lambda>p. fst p = t) ps)"

definition spec_bucket :: "string list \<Rightarrow> string list \<Rightarrow> string \<Rightarrow> topic_chunk" where
  \<comment> \<open>the bucket of topic \<open>t\<close>, given the current topic of each chunk\<close>
  "spec_bucket topics chunks t =
     \<lparr>topic = t,
      content = join '' '' (chunks_of t (zip topics chunks)),
      chunk_count = length (chunks_of t (zip topics chunks))\<rparr>"

definition add_chunk :: "string \<times> string \<Rightarrow> topics_dict \<Rightarrow> topics_dict" where
  \<comment> \<open>one round of the loop of the source, once the current topic is known\<close>
  "add_chunk p topics =
     append_to (fst p) (snd p)
       (if fst p \<notin> set (map fst topics) then topics @ [(fst p, [])] else topics)"

subsection \<open>The sample text of the demonstration routine\<close>

definition insurance_text :: string where
  "insurance_text = join ''\<newline>''
     ['''',
      ''    AUTO INSURANCE'',
      ''    Auto insurance protects against financial loss in the event of an accident. '',
      ''    It is a contract between the policyholder and the insurance company.'',
      ''    '',
      ''    LIFE INSURANCE'',
      ''    Life insurance provides financial protection to beneficiaries upon the death of the insured.'',
      ''    There are two main types: term and whole life insurance.'',
      ''    '',
      ''    PROPERTY INSURANCE'',
      ''    Property insurance covers damage to property from various perils.'',
      ''    This includes coverage for homes, businesses, and other structures.'',
      ''    '']"

text \<open>The three paragraphs of the sample text, each without its surrounding whitespace.\<close>

definition sample_auto :: string where
  "sample_auto = ''AUTO INSURANCE\<newline>    Auto insurance protects against financial loss in the event of an accident. \<newline>    It is a contract between the policyholder and the insurance company.''"

definition sample_life :: string where
  "sample_life = ''LIFE INSURANCE\<newline>    Life insurance provides financial protection to beneficiaries upon the death of the insured.\<newline>    There are two main types: term and whole life insurance.''"

definition sample_property :: string where
  "sample_property = ''PROPERTY INSURANCE\<newline>    Property insurance covers damage to property from various perils.\<newline>    This includes coverage for homes, businesses, and other structures.''"

section \<open>Errors and effects\<close>

text \<open>
  An exception is a value: \<open>KeyError k\<close> and \<open>IndexError\<close> are the Python exceptions of
  a failed lookup, \<open>ExternalError msg\<close> is whatever an external component raises (the
  document reader, the language-model and embedding services, the graph store).
\<close>

datatype error = KeyError string | IndexError | ExternalError string

text \<open>
  A program runs on a state and either raises or returns, with the state it leaves.
  The state of a run is a pair: the world outside the program (files, stores, services,
  the random source) and the list of calls the program has made so far, in order.
\<close>

type_synonym ('a, 's) prog = "'s \<Rightarrow> (error + 'a) \<times> 's"

definition return_io :: "'a \<Rightarrow> ('a, 's) prog" where
  "return_io v = (\<lambda>s. (Inr v, s))"

definition bind_io :: "('a, 's) prog \<Rightarrow> ('a \<Rightarrow> ('b, 's) prog) \<Rightarrow> ('b, 's) prog" where
  "bind_io m f = (\<lambda>s. case m s of (Inl e, s') \<Rightarrow> (Inl e, s') | (Inr v, s') \<Rightarrow> f v s')"

definition lift_io :: "error + 'a \<Rightarrow> ('a, 's) prog" where
  \<comment> \<open>a computation that touches no state\<close>
  "lift_io r = (\<lambda>s. (r, s))"

definition ext_io :: "('a, 'w) prog \<Rightarrow> ('a, 'w \<times> 'c list) prog" where
  \<comment> \<open>a call of an external component: it runs on the world and may raise\<close>
  "ext_io m = (\<lambda>(w, calls). case m w of (r, w') \<Rightarrow> (r, (w', calls)))"

definition draw_io :: "('w \<Rightarrow> 'a \<times> 'w) \<Rightarrow> ('a, 'w \<times> 'c list) prog" where
  \<comment> \<open>a draw from the random source: it changes the world and does not raise\<close>
  "draw_io f = (\<lambda>(w, calls). case f w of (v, w') \<Rightarrow> (Inr v, (w', calls)))"

definition emit_io :: "'c \<Rightarrow> (unit, 'w \<times> 'c list) prog" where
  \<comment> \<open>records a call at the end of the list of calls\<close>
  "emit_io c = (\<lambda>(w, calls). (Inr (), (w, calls @ [c])))"

section \<open>The splitter instance and the demonstration routine\<close>

text \<open>
  The constructor of \<open>LlamaIndexTextSplitter\<close> builds two text splitters and, from each,
  a node parser with \<open>SimpleNodeParser.from_defaults(text_splitter=...)\<close>. These are
  calls into llama-index, which are parameters here: \<open>'ts\<close> is the type of its text
  splitters, and a node parser is known by the texts of the nodes it makes of a
  one-document list. Each of the calls may raise.
\<close>

record 'ts llama_index =
  TokenTextSplitter :: "nat \<Rightarrow> nat \<Rightarrow> error + 'ts"
  SentenceSplitter :: "nat \<Rightarrow> nat \<Rightarrow> error + 'ts"
  from_defaults :: "'ts \<Rightarrow> error + (string \<Rightarrow> string list)"

record 'ts LlamaIndexTextSplitter =
  self_token_splitter :: 'ts
  self_sentence_splitter :: 'ts
  self_token_parser :: "string \<Rightarrow> string list"
  self_sentence_parser :: "string \<Rightarrow> string list"

definition init ::
  "'ts llama_index \<Rightarrow> nat \<Rightarrow> nat \<Rightarrow> error + 'ts LlamaIndexTextSplitter" where
  \<comment> \<open>\<open>__init__(self, chunk_size, chunk_overlap)\<close>\<close>
  "init lib chunk_size chunk_overlap =
     (case TokenTextSplitter lib chunk_size chunk_overlap of
        Inl err \<Rightarrow> Inl err
      | Inr token_splitter \<Rightarrow>
     (case SentenceSplitter lib chunk_size chunk_overlap of
        Inl err \<Rightarrow> Inl err
      | Inr sentence_splitter \<Rightarrow>
     (case from_defaults lib token_splitter of
        Inl err \<Rightarrow> Inl err
      | Inr token_parser \<Rightarrow>
     (case from_defaults lib sentence_splitter of
        Inl err \<Rightarrow> Inl err
      | Inr sentence_parser \<Rightarrow>
          Inr \<lparr>self_token_splitter = token_splitter,
               self_sentence_splitter = sentence_splitter,
               self_token_parser = token_parser,
               self_sentence_parser = sentence_parser\<rparr>))))"

definition split_by_tokens :: "'ts LlamaIndexTextSplitter \<Rightarrow> string \<Rightarrow> string list" where
  "split_by_tokens self text = self_token_parser self text"

definition split_by_sentences :: "'ts LlamaIndexTextSplitter \<Rightarrow> string \<Rightarrow> string list" where
  "split_by_sentences self text = self_sentence_parser self text"

text \<open>
  What \<open>process_insurance_text\<close> returns; what it prints on the way is left out.
\<close>

record demo_results =
  token_chunks :: "string list"
  sentence_chunks :: "string list"
  topic_chunks :: "topic_chunk list"
  token_analysis :: "chunk_analysis list"
  sentence_analysis :: "chunk_analysis list"

definition process_insurance_text :: "'ts llama_index \<Rightarrow> error + demo_results" where
  "process_insurance_text lib =
     (case init lib 512 50 of
        Inl err \<Rightarrow> Inl err
      | Inr splitter \<Rightarrow>
          Inr \<lparr>token_chunks = split_by_tokens splitter insurance_text,
               sentence_chunks = split_by_sentences splitter insurance_text,
               topic_chunks = split_by_topics (self_sentence_parser splitter) insurance_text,
               token_analysis = analyze_chunks (split_by_tokens splitter insurance_text),
               sentence_analysis =
                 analyze_chunks (split_by_sentences splitter insurance_text)\<rparr>)"

text \<open>
  Two small instances of the library, on which the routine can be run. In the first a
  node parser never cuts: a text is one node, stripped, and a blank text gives no
  node. In the second \<open>from_defaults\<close> refuses the keyword \<open>text_splitter\<close>.
\<close>

definition uncut_llama_index :: "unit llama_index" where
  "uncut_llama_index =
     \<lparr>TokenTextSplitter = (\<lambda>chunk_size chunk_overlap. Inr ()),
      SentenceSplitter = (\<lambda>chunk_size chunk_overlap. Inr ()),
      from_defaults = (\<lambda>text_splitter.
         Inr (\<lambda>text. if strip text = [] then [] else [strip text]))\<rparr>"

definition refusing_llama_index :: "unit llama_index" where
  "refusing_llama_index =
     \<lparr>TokenTextSplitter = (\<lambda>chunk_size chunk_overlap. Inr ()),
      SentenceSplitter = (\<lambda>chunk_size chunk_overlap. Inr ()),
      from_defaults = (\<lambda>text_splitter.
         Inl (ExternalError ''TypeError: unexpected keyword argument text_splitter''))\<rparr>"

section \<open>The document loader (text\_splitter.py)\<close>

text \<open>
  The module runs \<open>load_dotenv()\<close> and then reads \<open>os.environ['OPENAI_API_KEY']\<close> when it
  is imported. \<open>load_dotenv\<close> adds the variables of the local \<open>.env\<close> file to the process
  environment, keeping a variable that is already set.
\<close>

type_synonym environ = "string \<rightharpoonup> string"

definition load_dotenv :: "environ \<Rightarrow> environ \<Rightarrow> environ" where
  "load_dotenv dotenv_file env = dotenv_file ++ env"

definition import_text_splitter :: "environ \<Rightarrow> environ \<Rightarrow> error + string" where
  \<comment> \<open>the import of the module: its value is the module's \<open>openai_api_key\<close>\<close>
  "import_text_splitter dotenv_file env =
     (case load_dotenv dotenv_file env ''OPENAI_API_KEY'' of
        None \<Rightarrow> Inl (KeyError ''OPENAI_API_KEY'')
      | Some k \<Rightarrow> Inr k)"

text \<open>
  The external components of the indexing pipeline. Documents, nodes, extracted nodes,
  entities and relationships are whatever these components make of them; \<open>'w\<close> is the
  world they act on. \<open>read_directory\<close> is \<open>SimpleDirectoryReader(directory).load_data()\<close>;
  \<open>semantic_split\<close> is the semantic splitter on an embedding model with the given key,
  with its \<open>buffer_size\<close> and \<open>breakpoint_percentile_threshold\<close>.
\<close>

record ('d, 'n, 'x, 'e, 'r, 'w) services =
  read_directory :: "string \<Rightarrow> ('d list, 'w) prog"
  semantic_split :: "string \<Rightarrow> nat \<Rightarrow> nat \<Rightarrow> 'd list \<Rightarrow> ('n list, 'w) prog"
  new_GraphExtractor :: "(unit, 'w) prog"
  new_GraphResolver :: "(unit, 'w) prog"
  new_DataIndexer :: "(unit, 'w) prog"
  new_CommunitySummarizer :: "(unit, 'w) prog"
  extractor_extract :: "'n list \<Rightarrow> ('x, 'w) prog"
  resolver_resolve :: "'x \<Rightarrow> ('e \<times> 'r, 'w) prog"
  summarizer_run :: "'e \<Rightarrow> 'r \<Rightarrow> (unit, 'w) prog"
  insert_data :: "'e \<Rightarrow> 'r \<Rightarrow> (unit, 'w) prog"

definition load_data ::
  "('d, 'n, 'x, 'e, 'r, 'w) services \<Rightarrow> string \<Rightarrow> string \<Rightarrow> ('n list, 'w) prog" where
  \<comment> \<open>\<open>TextSplitter.load_data(directory)\<close> in a module whose key is \<open>openai_api_key\<close>\<close>
  "load_data svc openai_api_key directory =
     bind_io (read_directory svc directory)
       (\<lambda>docs. semantic_split svc openai_api_key 1 95 docs)"

section \<open>The indexing pipeline (indexing\_pipeline.py)\<close>

text \<open>The calls of the five stages, with their arguments.\<close>

datatype ('n, 'x, 'e, 'r) stage_call =
    LoadData
  | Extract "'n list"
  | Resolve 'x
  | SummarizerRun 'e 'r
  | InsertData 'e 'r




definition construct_components ::
  "('d, 'n, 'x, 'e, 'r, 'w) services \<Rightarrow> (unit, 'w \<times> ('n, 'x, 'e, 'r) stage_call list) prog" where
  \<comment> \<open>the constructors that \<open>run\<close> calls first, in its order; \<open>TextSplitter()\<close> has no
      constructor of its own\<close>
  "construct_components svc =
     bind_io (ext_io (new_GraphExtractor svc)) (\<lambda>_.
     bind_io (ext_io (new_GraphResolver svc)) (\<lambda>_.
     bind_io (ext_io (new_DataIndexer svc)) (\<lambda>_.
     ext_io (new_CommunitySummarizer svc))))"

definition run ::
  "('d, 'n, 'x, 'e, 'r, 'w) services \<Rightarrow> string \<Rightarrow>
   (unit, 'w \<times> ('n, 'x, 'e, 'r) stage_call list) prog" where
  "run svc openai_api_key =
     bind_io (construct_components svc) (\<lambda>_.
     bind_io (emit_io LoadData) (\<lambda>_.
     bind_io (ext_io (load_data svc openai_api_key ''./book'')) (\<lambda>nodes.
     bind_io (emit_io (Extract nodes)) (\<lambda>_.
     bind_io (ext_io (extractor_extract svc nodes)) (\<lambda>nodes'.
     bind_io (emit_io (Resolve nodes')) (\<lambda>_.
     bind_io (ext_io (resolver_resolve svc nodes')) (\<lambda>(entities, relationships).
     bind_io (emit_io (SummarizerRun entities relationships)) (\<lambda>_.
     bind_io (ext_io (summarizer_run svc entities relationships)) (\<lambda>_.
     bind_io (emit_io (InsertData entities relationships)) (\<lambda>_.
     ext_io (insert_data svc entities relationships)))))))))))"

definition pipeline_main ::
  "('d, 'n, 'x, 'e, 'r, 'w) services \<Rightarrow> environ \<Rightarrow> environ \<Rightarrow>
   (unit, 'w \<times> ('n, 'x, 'e, 'r) stage_call list) prog" where
  \<comment> \<open>the script: its first statement imports \<open>text_splitter\<close>, its last calls \<open>run()\<close>\<close>
  "pipeline_main svc dotenv_file env =
     bind_io (lift_io (import_text_splitter dotenv_file env))
       (\<lambda>openai_api_key. run svc openai_api_key)"

text \<open>
  A small instance of the external components, on which the model can be run: the
  world is a journal of what the components did.
\<close>

definition toy_services ::
  "(string, string, string list, string list, (string \<times> string) list, string list) services" where
  "toy_services =
     \<lparr>read_directory = (\<lambda>directory w. (Inr [''policy.txt''], w @ [''read '' @ directory])),
      semantic_split = (\<lambda>k buffer_size threshold docs w.
         (Inr (map (\<lambda>d. d @ '' node'') docs), w @ [''embedded with '' @ k])),
      new_GraphExtractor = (\<lambda>w. (Inr (), w)),
      new_GraphResolver = (\<lambda>w. (Inr (), w)),
      new_DataIndexer = (\<lambda>w. (Inr (), w @ [''store opened''])),
      new_CommunitySummarizer = (\<lambda>w. (Inr (), w)),
      extractor_extract = (\<lambda>nodes w. (Inr (map (\<lambda>n. n @ '' annotated'') nodes), w)),
      resolver_resolve = (\<lambda>nodes w. (Inr ([''Term Life'', ''Policy''], [(''Term Life'', ''Policy'')]), w)),
      summarizer_run = (\<lambda>entities relationships w. (Inr (), w @ [''summaries saved''])),
      insert_data = (\<lambda>entities relationships w. (Inr (), w @ [''graph saved'']))\<rparr>"

section \<open>The dashboards (app.py and app2.py)\<close>

subsection \<open>Retrieved entities, data frames and the answer generator\<close>

text \<open>
  A retrieved entity has a \<open>name\<close> and a \<open>type\<close>; \<open>metadata\<close> is \<open>None\<close> when the object has
  no such attribute (the second dashboard asks with \<open>hasattr\<close>).
\<close>

record entity =
  name :: string
  type :: string
  metadata :: "(string \<rightharpoonup> string) option"

text \<open>
  \<open>pd.DataFrame(records)\<close> on a list of dicts that all have the same keys: the columns are
  those keys, and there is no column at all when the list is empty.
\<close>

record 'row data_frame =
  columns :: "string list"
  rows :: "'row list"

definition DataFrame :: "string list \<Rightarrow> 'row list \<Rightarrow> 'row data_frame" where
  "DataFrame keys records =
     \<lparr>columns = (if records = [] then [] else keys), rows = records\<rparr>"

definition df_empty :: "'row data_frame \<Rightarrow> bool" where
  \<comment> \<open>the attribute \<open>empty\<close>: an axis of length 0\<close>
  "df_empty df = (rows df = [] \<or> columns df = [])"

record 'wt edge =
  source :: string
  target :: string
  weight :: 'wt

text \<open>
  The generator is an external component: its three operations act on the world and
  may raise.
\<close>

record 'w generator =
  generate :: "string \<Rightarrow> (string, 'w) prog"
  get_entities :: "string \<Rightarrow> (entity list, 'w) prog"
  get_community_summaries :: "string \<Rightarrow> (string list, 'w) prog"

text \<open>
  The calls a dashboard makes to the page, in their order. The fixed texts and styles
  are left out; what is kept is which element is drawn and the data it shows:
  \<open>Source i s\<close> is the expander numbered \<open>i\<close> with the summary \<open>s\<close>, \<open>TermBadge c n\<close> the badge
  of the entity name \<open>n\<close> in column \<open>c\<close>, \<open>PlotlyChart fig\<close> the call \<open>st.plotly_chart(fig)\<close>.
\<close>

datatype 'fig ui_call =
    Title
  | QueryInput
  | Spinner
  | AnswerHeading
  | Answer string
  | ConceptsHeading
  | PlotlyChart 'fig
  | SourcesHeading
  | Source nat string
  | TermsHeading
  | TermBadge nat string

fun render_sources :: "nat \<Rightarrow> string list \<Rightarrow> (unit, 'w \<times> 'fig ui_call list) prog" where
  \<comment> \<open>\<open>for i, summary in enumerate(summaries, i): with st.expander(...): ...\<close>\<close>
  "render_sources i [] = return_io ()"
| "render_sources i (summary # rest) =
     bind_io (emit_io (Source i summary)) (\<lambda>_. render_sources (Suc i) rest)"

subsection \<open>The first dashboard (app.py)\<close>

fun edges_inner :: "entity \<Rightarrow> entity list \<Rightarrow> int edge list \<Rightarrow> int edge list" where
  \<comment> \<open>\<open>for e2 in entities[i+1:]: edges.append({...})\<close>\<close>
  "edges_inner e1 [] edges = edges"
| "edges_inner e1 (e2 # rest) edges =
     edges_inner e1 rest (edges @ [\<lparr>source = name e1, target = name e2, weight = 1\<rparr>])"

fun edges_outer :: "entity list \<Rightarrow> (nat \<times> entity) list \<Rightarrow> int edge list \<Rightarrow> int edge list" where
  \<comment> \<open>\<open>for i, e1 in enumerate(entities): ...\<close>\<close>
  "edges_outer entities [] edges = edges"
| "edges_outer entities ((i, e1) # rest) edges =
     edges_outer entities rest (edges_inner e1 (drop (i + 1) entities) edges)"

definition build_edges :: "entity list \<Rightarrow> int edge list" where
  "build_edges entities = edges_outer entities (enumerate 0 entities) []"

record node_row =
  node_id :: string
  node_type :: string

record point3d =
  pt_x :: int
  pt_y :: int
  pt_z :: int
  pt_text :: string
  pt_color :: string

definition scatter_3d ::
  "node_row data_frame \<Rightarrow> int list \<Rightarrow> int list \<Rightarrow> int list \<Rightarrow> point3d list" where
  \<comment> \<open>\<open>px.scatter_3d(df, x=xs, y=ys, z=zs, text="id", color="type")\<close>: one point per row,
      labelled with the row's \<open>id\<close> and coloured by the row's \<open>type\<close>\<close>
  "scatter_3d df xs ys zs =
     map (\<lambda>(r, x, y, z).
            \<lparr>pt_x = x, pt_y = y, pt_z = z, pt_text = node_id r, pt_color = node_type r\<rparr>)
       (zip (rows df) (zip xs (zip ys zs)))"

definition plot_entity_network ::
  "entity list \<Rightarrow> (unit, 'w \<times> point3d list ui_call list) prog" where
  "plot_entity_network entities =
     (let nodes = DataFrame [''id'', ''type'']
                    (map (\<lambda>e. \<lparr>node_id = name e, node_type = type e\<rparr>) entities);
          edges = DataFrame [''source'', ''target'', ''weight''] (build_edges entities)
      in if \<not> df_empty edges
         then emit_io (PlotlyChart
                (scatter_3d nodes (replicate (length (rows nodes)) 0)
                   (replicate (length (rows nodes)) 0) (replicate (length (rows nodes)) 0)))
         else return_io ())"

definition render_main ::
  "'w generator \<Rightarrow> string \<Rightarrow> (unit, 'w \<times> point3d list ui_call list) prog" where
  \<comment> \<open>\<open>query\<close> is what the text input returns\<close>
  "render_main generator query =
     bind_io (emit_io Title) (\<lambda>_.
     bind_io (emit_io QueryInput) (\<lambda>_.
     if query \<noteq> [] then
       bind_io (emit_io Spinner) (\<lambda>_.
       bind_io (ext_io (generate generator query)) (\<lambda>response.
       bind_io (ext_io (get_entities generator query)) (\<lambda>entities.
       bind_io (ext_io (get_community_summaries generator query)) (\<lambda>summaries.
       bind_io (emit_io AnswerHeading) (\<lambda>_.
       bind_io (emit_io (Answer response)) (\<lambda>_.
       bind_io (emit_io ConceptsHeading) (\<lambda>_.
       bind_io (if entities \<noteq> [] then plot_entity_network entities else return_io ()) (\<lambda>_.
       bind_io (emit_io SourcesHeading) (\<lambda>_.
       render_sources 1 summaries)))))))))
     else return_io ()))"

subsection \<open>The second dashboard (app2.py)\<close>

text \<open>
  The second dashboard draws random numbers and lays the graph out with networkx.
  \<open>randint\<close> and \<open>uniform\<close> are the draws of the random source; \<open>spring_layout\<close> is the
  layout, which gives a position to nodes. \<open>'f\<close> is the type of floating-point numbers,
  of which the model needs no arithmetic.
\<close>

record node_row2 =
  row_id :: string
  row_label :: string
  row_size :: int

record graph =
  g_nodes :: "string list"
  g_edges :: "(string \<times> string) list"

record ('f, 'w) toolkit =
  randint :: "int \<Rightarrow> int \<Rightarrow> 'w \<Rightarrow> int \<times> 'w"
  uniform :: "int \<Rightarrow> int \<Rightarrow> 'w \<Rightarrow> 'f \<times> 'w"
  spring_layout :: "graph \<Rightarrow> nat \<Rightarrow> nat \<Rightarrow> (string \<rightharpoonup> 'f \<times> 'f, 'w) prog"

datatype 'f trace =
    Lines "'f list" "'f list" 'f
  | MarkersText "'f list" "'f list" "string list" "int list"

definition entity_label :: "entity \<Rightarrow> string" where
  \<comment> \<open>\<open>e.metadata.get('label', 'Unknown') if hasattr(e, 'metadata') else 'Unknown'\<close>\<close>
  "entity_label e =
     (case metadata e of
        None \<Rightarrow> ''Unknown''
      | Some m \<Rightarrow> (case m ''label'' of None \<Rightarrow> ''Unknown'' | Some l \<Rightarrow> l))"

fun node_rows2 ::
  "('f, 'w) toolkit \<Rightarrow> entity list \<Rightarrow> (node_row2 list, 'w \<times> 'c list) prog" where
  \<comment> \<open>the list comprehension of the node records: one draw of a size per entity\<close>
  "node_rows2 tk [] = return_io []"
| "node_rows2 tk (e # rest) =
     bind_io (draw_io (randint tk 20 40)) (\<lambda>sz.
     bind_io (node_rows2 tk rest) (\<lambda>rs.
     return_io (\<lparr>row_id = name e, row_label = entity_label e, row_size = sz\<rparr> # rs)))"

fun edges_inner2 ::
  "('f, 'w) toolkit \<Rightarrow> entity \<Rightarrow> entity list \<Rightarrow> 'f edge list \<Rightarrow>
   ('f edge list, 'w \<times> 'c list) prog" where
  "edges_inner2 tk e1 [] edges = return_io edges"
| "edges_inner2 tk e1 (e2 # rest) edges =
     bind_io (draw_io (uniform tk 1 3)) (\<lambda>wt.
     edges_inner2 tk e1 rest (edges @ [\<lparr>source = name e1, target = name e2, weight = wt\<rparr>]))"

fun edges_outer2 ::
  "('f, 'w) toolkit \<Rightarrow> entity list \<Rightarrow> (nat \<times> entity) list \<Rightarrow> 'f edge list \<Rightarrow>
   ('f edge list, 'w \<times> 'c list) prog" where
  "edges_outer2 tk entities [] edges = return_io edges"
| "edges_outer2 tk entities ((i, e1) # rest) edges =
     bind_io (edges_inner2 tk e1 (drop (i + 1) entities) edges) (\<lambda>edges'.
     edges_outer2 tk entities rest edges')"

definition build_edges2 ::
  "('f, 'w) toolkit \<Rightarrow> entity list \<Rightarrow> ('f edge list, 'w \<times> 'c list) prog" where
  "build_edges2 tk entities = edges_outer2 tk entities (enumerate 0 entities) []"

definition add_node :: "string \<Rightarrow> graph \<Rightarrow> graph" where
  "add_node n g = (if n \<in> set (g_nodes g) then g else g\<lparr>g_nodes := g_nodes g @ [n]\<rparr>)"

definition add_edge :: "string \<times> string \<Rightarrow> graph \<Rightarrow> graph" where
  \<comment> \<open>an undirected simple graph: an edge that is present, in either direction, is not
      added again\<close>
  "add_edge uv g =
     (let g' = add_node (snd uv) (add_node (fst uv) g)
      in if uv \<in> set (g_edges g') \<or> (snd uv, fst uv) \<in> set (g_edges g') then g'
         else g'\<lparr>g_edges := g_edges g' @ [uv]\<rparr>)"

definition from_pandas_edgelist :: "'wt edge data_frame \<Rightarrow> error + graph" where
  \<comment> \<open>\<open>nx.from_pandas_edgelist(df, 'source', 'target')\<close>: it reads the column \<open>source\<close>,
      then the column \<open>target\<close>, and adds one edge per row\<close>
  "from_pandas_edgelist df =
     (if ''source'' \<notin> set (columns df) then Inl (KeyError ''source'')
      else if ''target'' \<notin> set (columns df) then Inl (KeyError ''target'')
      else Inr (fold add_edge (map (\<lambda>r. (source r, target r)) (rows df))
                  \<lparr>g_nodes = [], g_edges = []\<rparr>))"

definition lookup_pos :: "(string \<rightharpoonup> 'p) \<Rightarrow> string \<Rightarrow> error + 'p" where
  \<comment> \<open>\<open>pos[node]\<close>\<close>
  "lookup_pos pos n = (case pos n of None \<Rightarrow> Inl (KeyError n) | Some p \<Rightarrow> Inr p)"

fun edge_traces :: "(string \<rightharpoonup> 'f \<times> 'f) \<Rightarrow> 'f edge list \<Rightarrow> error + 'f trace list" where
  \<comment> \<open>\<open>for edge in edges.itertuples(): fig.add_trace(go.Scatter(...))\<close>\<close>
  "edge_traces pos [] = Inr []"
| "edge_traces pos (e # rest) =
     (case lookup_pos pos (source e) of
        Inl err \<Rightarrow> Inl err
      | Inr (x0, y0) \<Rightarrow>
          (case lookup_pos pos (target e) of
             Inl err \<Rightarrow> Inl err
           | Inr (x1, y1) \<Rightarrow>
               (case edge_traces pos rest of
                  Inl err \<Rightarrow> Inl err
                | Inr ts \<Rightarrow> Inr (Lines [x0, x1] [y0, y1] (weight e) # ts))))"

definition size_of_node :: "node_row2 data_frame \<Rightarrow> string \<Rightarrow> error + int" where
  \<comment> \<open>\<open>nodes[nodes['id'] == node]['size'].iloc[0]\<close>\<close>
  "size_of_node nodes n =
     (if ''id'' \<notin> set (columns nodes) then Inl (KeyError ''id'')
      else case filter (\<lambda>r. row_id r = n) (rows nodes) of
             [] \<Rightarrow> Inl IndexError
           | r # _ \<Rightarrow> Inr (row_size r))"

fun node_trace ::
  "(string \<rightharpoonup> 'f \<times> 'f) \<Rightarrow> node_row2 data_frame \<Rightarrow> string list \<Rightarrow>
   'f list \<Rightarrow> 'f list \<Rightarrow> string list \<Rightarrow> int list \<Rightarrow> error + 'f trace" where
  \<comment> \<open>\<open>for node in G.nodes(): ...\<close>, then the one trace of all nodes\<close>
  "node_trace pos nodes [] node_x node_y node_text node_sizes =
     Inr (MarkersText node_x node_y node_text node_sizes)"
| "node_trace pos nodes (n # rest) node_x node_y node_text node_sizes =
     (case lookup_pos pos n of
        Inl err \<Rightarrow> Inl err
      | Inr (x, y) \<Rightarrow>
          (case size_of_node nodes n of
             Inl err \<Rightarrow> Inl err
           | Inr sz \<Rightarrow>
               node_trace pos nodes rest (node_x @ [x]) (node_y @ [y]) (node_text @ [n])
                 (node_sizes @ [sz])))"

definition plot_entity_network2 ::
  "('f, 'w) toolkit \<Rightarrow> entity list \<Rightarrow> (unit, 'w \<times> 'f trace list ui_call list) prog" where
  "plot_entity_network2 tk entities =
     bind_io (node_rows2 tk entities) (\<lambda>node_records.
     bind_io (build_edges2 tk entities) (\<lambda>edge_records.
     (let nodes = DataFrame [''id'', ''label'', ''size''] node_records;
          edges = DataFrame [''source'', ''target'', ''weight''] edge_records
      in bind_io (lift_io (from_pandas_edgelist edges)) (\<lambda>G.
         bind_io (ext_io (spring_layout tk G 1 50)) (\<lambda>pos.
         bind_io (lift_io (edge_traces pos (rows edges))) (\<lambda>lines.
         bind_io (lift_io (node_trace pos nodes (g_nodes G) [] [] [] [])) (\<lambda>markers.
         emit_io (PlotlyChart (lines @ [markers])))))))))"

fun render_badges :: "nat \<Rightarrow> string list \<Rightarrow> (unit, 'w \<times> 'fig ui_call list) prog" where
  \<comment> \<open>\<open>for i, name in enumerate(entity_names): with cols[i % 3]: ...\<close>\<close>
  "render_badges i [] = return_io ()"
| "render_badges i (n # rest) =
     bind_io (emit_io (TermBadge (i mod 3) n)) (\<lambda>_. render_badges (Suc i) rest)"

definition render_main2 ::
  "('f, 'w) toolkit \<Rightarrow> 'w generator \<Rightarrow> string \<Rightarrow>
   (unit, 'w \<times> 'f trace list ui_call list) prog" where
  "render_main2 tk generator query =
     bind_io (emit_io Title) (\<lambda>_.
     bind_io (emit_io QueryInput) (\<lambda>_.
     if query \<noteq> [] then
       bind_io (emit_io Spinner) (\<lambda>_.
       bind_io (ext_io (generate generator query)) (\<lambda>response.
       bind_io (ext_io (get_entities generator query)) (\<lambda>entities.
       bind_io (ext_io (get_community_summaries generator query)) (\<lambda>summaries.
       bind_io (emit_io (Answer response)) (\<lambda>_.
       bind_io (if entities \<noteq> [] then
                  bind_io (plot_entity_network2 tk entities) (\<lambda>_.
                  bind_io (emit_io TermsHeading) (\<lambda>_.
                  render_badges 0 (map name entities)))
                else return_io ()) (\<lambda>_.
       render_sources 1 summaries))))))
     else return_io ()))"

subsection \<open>The complete graph, and small instances for running the dashboards\<close>

fun all_pairs :: "'a list \<Rightarrow> ('a \<times> 'a) list" where
  \<comment> \<open>every pair of an earlier and a later element of a list, once\<close>
  "all_pairs [] = []"
| "all_pairs (x # xs) = map (Pair x) xs @ all_pairs xs"

definition endpoints :: "'wt edge \<Rightarrow> string \<times> string" where
  "endpoints e = (source e, target e)"

definition unordered :: "'a \<times> 'a \<Rightarrow> 'a set" where
  "unordered p = {fst p, snd p}"

fun is_plot :: "'fig ui_call \<Rightarrow> bool" where
  "is_plot (PlotlyChart fig) = True"
| "is_plot c = False"

definition toy_toolkit :: "(int, nat) toolkit" where
  \<comment> \<open>the world is a counter of draws; the layout puts every node at \<open>(1, 2)\<close>\<close>
  "toy_toolkit =
     \<lparr>randint = (\<lambda>lo hi w. (lo + int w mod (hi - lo + 1), Suc w)),
      uniform = (\<lambda>lo hi w. (lo + int w mod (hi - lo + 1), Suc w)),
      spring_layout = (\<lambda>g k iterations w. (Inr (\<lambda>n. Some (1, 2)), w))\<rparr>"

definition toy_generator :: "entity list \<Rightarrow> nat generator" where
  \<comment> \<open>a generator that retrieves the given entities and two summaries\<close>
  "toy_generator found =
     \<lparr>generate = (\<lambda>q w. (Inr (''Answer to: '' @ q), w)),
      get_entities = (\<lambda>q w. (Inr found, w)),
      get_community_summaries = (\<lambda>q w. (Inr [''Summary A'', ''Summary B''], w))\<rparr>"

definition term_life :: entity where
  "term_life = \<lparr>name = ''Term Life'', type = ''Product'', metadata = None\<rparr>"

definition whole_life :: entity where
  "whole_life = \<lparr>name = ''Whole Life'', type = ''Product'',
     metadata = Some [''label'' \<mapsto> ''Insurance'']\<rparr>"

definition premium :: entity where
  "premium = \<lparr>name = ''Premium'', type = ''Concept'', metadata = Some Map.empty\<rparr>"

section \<open>Facts about the string functions\<close>

lemma split_sep_from_length:
  "length (split_sep_from sep cur s) = Suc (count_list s sep)"
  by (induction s arbitrary: cur) simp_all

lemma split_ws_from_length:
  "length (split_ws_from cur s) =
     (if cur = [] then count_tokens True s else Suc (count_tokens False s))"
  by (induction s arbitrary: cur) simp_all

lemma split_ws_from_concat:
  "concat (split_ws_from cur s) = cur @ filter (\<lambda>c. \<not> isspace c) s"
  by (induction s arbitrary: cur) simp_all

section \<open>analyze\_chunks\<close>

lemma analyze_loop_map:
  "analyze_loop i chunks analysis =
     analysis @ map (\<lambda>(j, c). analysis_row j c) (enumerate i chunks)"
  by (induction chunks arbitrary: i analysis) simp_all

lemma analyze_chunks_nth:
  "i < length chunks \<Longrightarrow> analyze_chunks chunks ! i = analysis_row i (chunks ! i)"
  by (simp add: analyze_chunks_def analyze_loop_map nth_enumerate_eq)

text \<open>
  Claim C5. \<open>analyze_chunks\<close> returns one record per chunk, in input order. In the
  record of the chunk at index \<open>i\<close>, \<open>chunk_id\<close> is \<open>i\<close>, \<open>length\<close> is the number of
  characters of the chunk, \<open>sentences\<close> is the number of segments that splitting at
  \<open>'.'\<close> gives (one more than the number of full stops), \<open>words\<close> is the number of
  whitespace-separated tokens (the number of maximal runs of non-whitespace
  characters), and \<open>preview\<close> is the first 100 characters followed by \<open>...\<close>; for a
  chunk shorter than 100 characters the preview is the whole chunk followed by \<open>...\<close>.
\<close>

theorem analyze_chunks_records:
  "length (analyze_chunks chunks) = length chunks \<and>
   (\<forall>i < length chunks.
      chunk_id (analyze_chunks chunks ! i) = i \<and>
      chunk_length (analyze_chunks chunks ! i) = length (chunks ! i) \<and>
      sentences (analyze_chunks chunks ! i) = length (split_sep CHR ''.'' (chunks ! i)) \<and>
      sentences (analyze_chunks chunks ! i) = Suc (count_list (chunks ! i) CHR ''.'') \<and>
      words (analyze_chunks chunks ! i) = length (split_ws (chunks ! i)) \<and>
      words (analyze_chunks chunks ! i) = count_tokens True (chunks ! i) \<and>
      preview (analyze_chunks chunks ! i) = take 100 (chunks ! i) @ ''...'' \<and>
      (length (chunks ! i) < 100 \<longrightarrow>
         preview (analyze_chunks chunks ! i) = chunks ! i @ ''...''))"
proof -
  have len: "length (analyze_chunks chunks) = length chunks"
    by (simp add: analyze_chunks_def analyze_loop_map)
  show ?thesis
    by (simp add: len analyze_chunks_nth analysis_row_def split_sep_def split_sep_from_length
        split_ws_def split_ws_from_length)
qed

theorem analyze_chunks_records_witness:
  "analyze_chunks [''Auto insurance. It is  a contract.'', ''AUTO''] ! 1 =
     \<lparr>chunk_id = 1, chunk_length = 4, sentences = 1, words = 1, preview = ''AUTO...''\<rparr>"
proof -
  let ?cs = "[''Auto insurance. It is  a contract.'', ''AUTO'']"
  have "(1::nat) < length ?cs" by simp
  with analyze_chunks_records [of ?cs]
  have "chunk_id (analyze_chunks ?cs ! 1) = 1 \<and>
      chunk_length (analyze_chunks ?cs ! 1) = length (?cs ! 1) \<and>
      sentences (analyze_chunks ?cs ! 1) = Suc (count_list (?cs ! 1) CHR ''.'') \<and>
      words (analyze_chunks ?cs ! 1) = count_tokens True (?cs ! 1) \<and>
      (length (?cs ! 1) < 100 \<longrightarrow> preview (analyze_chunks ?cs ! 1) = ?cs ! 1 @ ''...'')"
    by blast
  then have "chunk_id (analyze_chunks ?cs ! 1) = 1 \<and>
      chunk_length (analyze_chunks ?cs ! 1) = 4 \<and>
      sentences (analyze_chunks ?cs ! 1) = 1 \<and>
      words (analyze_chunks ?cs ! 1) = 1 \<and>
      preview (analyze_chunks ?cs ! 1) = ''AUTO...''"
    by (simp add: isspace_def)
  then show ?thesis
    by (cases "analyze_chunks ?cs ! 1") simp
qed

section \<open>split\_by\_topics\<close>

subsection \<open>The loop of the source is the single pass of the specification\<close>

lemma scan_indicators_last:
  "scan_indicators inds text cur =
     (if filter (\<lambda>m. contains (lower m) (lower text)) inds = [] then cur
      else last (filter (\<lambda>m. contains (lower m) (lower text)) inds))"
  by (induction inds arbitrary: cur) simp_all

lemma scan_indicators_topic_after:
  "scan_indicators topic_indicators text cur = spec_topic_after cur text"
  by (simp add: scan_indicators_last spec_topic_after_def spec_markers_in_def)

lemma topics_loop_fold:
  "topics_loop chunks topics cur =
     fold add_chunk (zip (spec_current_topics cur chunks) chunks) topics"
  by (induction chunks arbitrary: topics cur)
     (simp_all add: scan_indicators_topic_after add_chunk_def Let_def)

lemma append_to_absent: "key \<notin> fst ` set d \<Longrightarrow> append_to key text d = d"
  by (induction d) auto

lemma append_to_keys: "map fst (append_to key text d) = map fst d"
  by (induction d) auto

lemma append_to_append:
  "append_to key text (d @ e) =
     (if key \<in> fst ` set d then append_to key text d @ e else d @ append_to key text e)"
  by (induction d) force+

lemma append_to_map:
  "distinct (map fst d) \<Longrightarrow>
   map (\<lambda>(k, v). (k, v @ f k)) (append_to key text d) =
   map (\<lambda>(k, v). (k, v @ (if k = key then text # f k else f k))) d"
  by (induction d) (force simp: append_to_absent)+

lemma fold_add_chunk:
  "distinct (map fst d) \<Longrightarrow>
   fold add_chunk ps d =
     map (\<lambda>(k, v). (k, v @ chunks_of k ps)) d @
     map (\<lambda>t. (t, chunks_of t ps)) (filter (\<lambda>t. t \<notin> fst ` set d) (first_seen (map fst ps)))"
proof (induction ps arbitrary: d)
  case Nil
  then show ?case by (simp add: chunks_of_def)
next
  case (Cons p ps)
  obtain t c where p: "p = (t, c)" by (cases p)
  show ?case
  proof (cases "t \<in> fst ` set d")
    case True
    have d1: "distinct (map fst (append_to t c d))"
      using Cons.prems by (simp add: append_to_keys)
    have keys: "fst ` set (append_to t c d) = fst ` set d"
      using append_to_keys [of t c d] by (metis list.set_map)
    have new: "filter (\<lambda>t'. t' \<notin> fst ` set d) (filter (\<lambda>y. y \<noteq> t) (first_seen (map fst ps)))
        = filter (\<lambda>t'. t' \<notin> fst ` set d) (first_seen (map fst ps))"
      using True by (auto simp: filter_filter intro: filter_cong)
    have sel: "map (\<lambda>t'. (t', chunks_of t' ((t, c) # ps)))
          (filter (\<lambda>t'. t' \<notin> fst ` set d) (first_seen (map fst ps)))
        = map (\<lambda>t'. (t', chunks_of t' ps))
          (filter (\<lambda>t'. t' \<notin> fst ` set d) (first_seen (map fst ps)))"
      using True by (auto simp: chunks_of_def)
    have old: "map (\<lambda>(k, v). (k, v @ chunks_of k ps)) (append_to t c d)
        = map (\<lambda>(k, v). (k, v @ chunks_of k ((t, c) # ps))) d"
      using Cons.prems by (auto simp: append_to_map chunks_of_def)
    have step: "add_chunk p d = append_to t c d"
      using True by (simp add: p add_chunk_def)
    have "fold add_chunk (p # ps) d = fold add_chunk ps (append_to t c d)"
      by (simp add: step)
    also have "\<dots> = map (\<lambda>(k, v). (k, v @ chunks_of k ps)) (append_to t c d) @
        map (\<lambda>t'. (t', chunks_of t' ps))
          (filter (\<lambda>t'. t' \<notin> fst ` set d) (first_seen (map fst ps)))"
      using Cons.IH [OF d1] by (simp only: keys)
    also have "\<dots> = map (\<lambda>(k, v). (k, v @ chunks_of k ((t, c) # ps))) d @
        map (\<lambda>t'. (t', chunks_of t' ((t, c) # ps)))
          (filter (\<lambda>t'. t' \<notin> fst ` set d) (first_seen (map fst ((t, c) # ps))))"
      using True by (simp only: old sel [symmetric] new [symmetric] first_seen.simps
          list.map fst_conv filter.simps) (simp add: chunks_of_def)
    finally show ?thesis by (simp only: p)
  next
    case False
    let ?d1 = "d @ [(t, [c])]"
    have d1: "distinct (map fst ?d1)"
      using Cons.prems False by (simp add: image_iff)
    have step: "add_chunk p d = ?d1"
      using False by (simp add: p add_chunk_def append_to_append)
    have old: "map (\<lambda>(k, v). (k, v @ chunks_of k ps)) d
        = map (\<lambda>(k, v). (k, v @ chunks_of k ((t, c) # ps))) d"
      using False by (force simp: chunks_of_def)
    have new: "filter (\<lambda>t'. t' \<notin> fst ` set ?d1) (first_seen (map fst ps))
        = filter (\<lambda>t'. t' \<notin> fst ` set d) (filter (\<lambda>y. y \<noteq> t) (first_seen (map fst ps)))"
      by (auto simp: filter_filter intro: filter_cong)
    have sel: "map (\<lambda>t'. (t', chunks_of t' ((t, c) # ps)))
          (filter (\<lambda>t'. t' \<notin> fst ` set d) (filter (\<lambda>y. y \<noteq> t) (first_seen (map fst ps))))
        = map (\<lambda>t'. (t', chunks_of t' ps))
          (filter (\<lambda>t'. t' \<notin> fst ` set d) (filter (\<lambda>y. y \<noteq> t) (first_seen (map fst ps))))"
      by (auto simp: chunks_of_def)
    have "fold add_chunk (p # ps) d = fold add_chunk ps ?d1"
      by (simp add: step)
    also have "\<dots> = map (\<lambda>(k, v). (k, v @ chunks_of k ps)) ?d1 @
        map (\<lambda>t'. (t', chunks_of t' ps))
          (filter (\<lambda>t'. t' \<notin> fst ` set ?d1) (first_seen (map fst ps)))"
      using Cons.IH [OF d1] .
    also have "\<dots> = map (\<lambda>(k, v). (k, v @ chunks_of k ps)) d @
        (t, c # chunks_of t ps) #
        map (\<lambda>t'. (t', chunks_of t' ps))
          (filter (\<lambda>t'. t' \<notin> fst ` set d) (filter (\<lambda>y. y \<noteq> t) (first_seen (map fst ps))))"
      by (simp only: new) simp
    also have "\<dots> = map (\<lambda>(k, v). (k, v @ chunks_of k ((t, c) # ps))) d @
        (t, chunks_of t ((t, c) # ps)) #
        map (\<lambda>t'. (t', chunks_of t' ((t, c) # ps)))
          (filter (\<lambda>t'. t' \<notin> fst ` set d) (filter (\<lambda>y. y \<noteq> t) (first_seen (map fst ps))))"
      by (simp only: old sel) (simp add: chunks_of_def)
    also have "\<dots> = map (\<lambda>(k, v). (k, v @ chunks_of k ((t, c) # ps))) d @
        map (\<lambda>t'. (t', chunks_of t' ((t, c) # ps)))
          (filter (\<lambda>t'. t' \<notin> fst ` set d) (first_seen (map fst ((t, c) # ps))))"
      using False by simp
    finally show ?thesis by (simp only: p)
  qed
qed

lemma length_spec_current_topics [simp]:
  "length (spec_current_topics cur chunks) = length chunks"
  by (induction chunks arbitrary: cur) simp_all

lemma map_fst_zip_topics:
  "map fst (zip (spec_current_topics cur chunks) chunks) = spec_current_topics cur chunks"
  by (simp add: map_fst_zip)

lemma group_by_topic_buckets:
  "group_by_topic chunks =
     map (spec_bucket (spec_current_topics ''General'' chunks) chunks)
       (first_seen (spec_current_topics ''General'' chunks))"
proof -
  have "topics_loop chunks [] ''General'' =
      map (\<lambda>t. (t, chunks_of t (zip (spec_current_topics ''General'' chunks) chunks)))
        (first_seen (spec_current_topics ''General'' chunks))"
    by (simp add: topics_loop_fold fold_add_chunk map_fst_zip_topics)
  then show ?thesis
    by (simp add: group_by_topic_def format_topic_def spec_bucket_def o_def)
qed

lemma spec_current_topics_nth:
  "i < length chunks \<Longrightarrow>
   spec_current_topics cur chunks ! i =
     spec_topic_after (if i = 0 then cur else spec_current_topics cur chunks ! (i - 1)) (chunks ! i)"
proof (induction chunks arbitrary: cur i)
  case Nil
  then show ?case by simp
next
  case (Cons c cs)
  show ?case
  proof (cases i)
    case 0
    then show ?thesis by simp
  next
    case (Suc j)
    then have "j < length cs" using Cons.prems by simp
    from Cons.IH [OF this, of "spec_topic_after cur c"] Suc show ?thesis
      by (cases j) simp_all
  qed
qed

lemma spec_current_topics_no_marker:
  "i < length chunks \<Longrightarrow> \<forall>j\<le>i. spec_markers_in (chunks ! j) = [] \<Longrightarrow>
   spec_current_topics cur chunks ! i = cur"
proof (induction i)
  case 0
  then have "spec_markers_in (chunks ! 0) = []" by simp
  with spec_current_topics_nth [OF "0.prems"(1), of cur] show ?case
    by (simp add: spec_topic_after_def)
next
  case (Suc i)
  then have prev: "spec_current_topics cur chunks ! i = cur" by simp
  have none: "spec_markers_in (chunks ! Suc i) = []" using Suc.prems by simp
  from spec_current_topics_nth [OF Suc.prems(1), of cur] prev none show ?case
    by (simp add: spec_topic_after_def)
qed

lemma lower_indicators:
  "lower ''AUTO INSURANCE'' = ''auto insurance''"
  "lower ''LIFE INSURANCE'' = ''life insurance''"
  "lower ''PROPERTY INSURANCE'' = ''property insurance''"
  "lower ''LIABILITY INSURANCE'' = ''liability insurance''"
  "lower ''WORKERS COMPENSATION'' = ''workers compensation''"
  "lower ''HEALTH INSURANCE'' = ''health insurance''"
  by code_simp+

text \<open>
  Claim C3. \<open>split_by_topics\<close> is a single stateful pass over the base chunks. The
  current topic starts as \<open>General\<close>; after a chunk in which a marker occurs
  (case-insensitively) it is a marker that occurs in that chunk (the last such one of
  the fixed list), after a chunk with no marker it is what it was before. The result
  has one bucket per topic that was current after some chunk, in the order of first
  occurrence, holding exactly the chunks after which that topic was current. So a chunk
  with no marker lands in the bucket of the most recently seen topic, and a chunk
  before any marker lands in \<open>General\<close>.
\<close>

theorem split_by_topics_stateful:
  "(let chunks = sentence_parser text;
        current = spec_current_topics ''General'' chunks
    in split_by_topics sentence_parser text = map (spec_bucket current chunks) (first_seen current) \<and>
       length current = length chunks \<and>
       (\<forall>i < length chunks.
          (spec_markers_in (chunks ! i) = [] \<longrightarrow>
             current ! i = (if i = 0 then ''General'' else current ! (i - 1))) \<and>
          (spec_markers_in (chunks ! i) \<noteq> [] \<longrightarrow>
             current ! i = last (spec_markers_in (chunks ! i)) \<and>
             current ! i \<in> set topic_indicators \<and>
             contains (lower (current ! i)) (lower (chunks ! i))) \<and>
          ((\<forall>j \<le> i. spec_markers_in (chunks ! j) = []) \<longrightarrow> current ! i = ''General'')))"
proof -
  define chunks where "chunks = sentence_parser text"
  define current where "current = spec_current_topics ''General'' chunks"
  have last_in: "spec_markers_in c \<noteq> [] \<Longrightarrow>
      last (spec_markers_in c) \<in> set topic_indicators \<and>
      contains (lower (last (spec_markers_in c))) (lower c)" for c
    using last_in_set [of "spec_markers_in c"] by (simp add: spec_markers_in_def)
  have step: "current ! i =
      spec_topic_after (if i = 0 then ''General'' else current ! (i - 1)) (chunks ! i)"
    if "i < length chunks" for i
    unfolding current_def using that by (rule spec_current_topics_nth)
  have buckets: "split_by_topics sentence_parser text =
      map (spec_bucket current chunks) (first_seen current)"
    by (simp add: split_by_topics_def group_by_topic_buckets chunks_def current_def)
  have len: "length current = length chunks"
    by (simp add: current_def)
  have each: "(spec_markers_in (chunks ! i) = [] \<longrightarrow>
             current ! i = (if i = 0 then ''General'' else current ! (i - 1))) \<and>
          (spec_markers_in (chunks ! i) \<noteq> [] \<longrightarrow>
             current ! i = last (spec_markers_in (chunks ! i)) \<and>
             current ! i \<in> set topic_indicators \<and>
             contains (lower (current ! i)) (lower (chunks ! i))) \<and>
          ((\<forall>j \<le> i. spec_markers_in (chunks ! j) = []) \<longrightarrow> current ! i = ''General'')"
    if i: "i < length chunks" for i
  proof (intro conjI impI)
    assume "spec_markers_in (chunks ! i) = []"
    then show "current ! i = (if i = 0 then ''General'' else current ! (i - 1))"
      using step [OF i] by (simp add: spec_topic_after_def)
  next
    assume m: "spec_markers_in (chunks ! i) \<noteq> []"
    then show eq: "current ! i = last (spec_markers_in (chunks ! i))"
      using step [OF i] by (simp add: spec_topic_after_def)
    from last_in [OF m] show "current ! i \<in> set topic_indicators"
      by (simp only: eq)
    from last_in [OF m] show "contains (lower (current ! i)) (lower (chunks ! i))"
      by (simp only: eq)
  next
    assume "\<forall>j \<le> i. spec_markers_in (chunks ! j) = []"
    with i show "current ! i = ''General''"
      unfolding current_def by (rule spec_current_topics_no_marker)
  qed
  show ?thesis
    unfolding Let_def chunks_def [symmetric] current_def [symmetric]
    using buckets len each by blast
qed

theorem split_by_topics_stateful_witness:
  "split_by_topics
     (\<lambda>_. [''Intro text'', ''Auto Insurance basics'', ''More details'',
           ''life insurance and HEALTH insurance'']) ''any text'' =
     [\<lparr>topic = ''General'', content = ''Intro text'', chunk_count = 1\<rparr>,
      \<lparr>topic = ''AUTO INSURANCE'', content = ''Auto Insurance basics More details'',
        chunk_count = 2\<rparr>,
      \<lparr>topic = ''HEALTH INSURANCE'', content = ''life insurance and HEALTH insurance'',
        chunk_count = 1\<rparr>] \<and>
   spec_current_topics ''General''
     [''Intro text'', ''Auto Insurance basics'', ''More details'',
      ''life insurance and HEALTH insurance''] =
     [''General'', ''AUTO INSURANCE'', ''AUTO INSURANCE'', ''HEALTH INSURANCE'']"
proof -
  let ?cs = "[''Intro text'', ''Auto Insurance basics'', ''More details'',
      ''life insurance and HEALTH insurance'']"
  let ?cur = "spec_current_topics ''General'' ?cs"
  have low: "lower ''Intro text'' = ''intro text''"
    "lower ''Auto Insurance basics'' = ''auto insurance basics''"
    "lower ''More details'' = ''more details''"
    "lower ''life insurance and HEALTH insurance'' = ''life insurance and health insurance''"
    by code_simp+
  have m0: "spec_markers_in ''Intro text'' = []"
    and m1: "spec_markers_in ''Auto Insurance basics'' = [''AUTO INSURANCE'']"
    and m2: "spec_markers_in ''More details'' = []"
    and m3: "spec_markers_in ''life insurance and HEALTH insurance'' =
      [''LIFE INSURANCE'', ''HEALTH INSURANCE'']"
    by (simp_all add: spec_markers_in_def topic_indicators_def lower_indicators low
        contains_def sublist_code)
  have T: "split_by_topics (\<lambda>_. ?cs) ''any text'' = map (spec_bucket ?cur ?cs) (first_seen ?cur) \<and>
      length ?cur = length ?cs \<and>
      (\<forall>i < length ?cs.
          (spec_markers_in (?cs ! i) = [] \<longrightarrow>
             ?cur ! i = (if i = 0 then ''General'' else ?cur ! (i - 1))) \<and>
          (spec_markers_in (?cs ! i) \<noteq> [] \<longrightarrow>
             ?cur ! i = last (spec_markers_in (?cs ! i)) \<and>
             ?cur ! i \<in> set topic_indicators \<and>
             contains (lower (?cur ! i)) (lower (?cs ! i))) \<and>
          ((\<forall>j \<le> i. spec_markers_in (?cs ! j) = []) \<longrightarrow> ?cur ! i = ''General''))"
    by (rule split_by_topics_stateful [of "\<lambda>_. ?cs" "''any text''", unfolded Let_def])
  then have len: "length ?cur = 4"
    by simp
  from T have c0: "?cur ! 0 = ''General''"
    by (elim conjE allE [of _ 0]) (simp add: m0)
  from T have c1: "?cur ! 1 = ''AUTO INSURANCE''"
    by (elim conjE allE [of _ 1]) (simp add: m1)
  from T have "?cur ! 2 = ?cur ! 1"
    by (elim conjE allE [of _ 2]) (simp add: m2)
  with c1 have c2: "?cur ! 2 = ''AUTO INSURANCE''"
    by simp
  from T have c3: "?cur ! 3 = ''HEALTH INSURANCE''"
    by (elim conjE allE [of _ 3]) (simp add: m3)
  have cur: "?cur = [''General'', ''AUTO INSURANCE'', ''AUTO INSURANCE'', ''HEALTH INSURANCE'']"
    using len c0 c1 c2 c3 by (simp add: list_eq_iff_nth_eq less_Suc_eq numeral_nat)
  from T have "split_by_topics (\<lambda>_. ?cs) ''any text'' =
      map (spec_bucket ?cur ?cs) (first_seen ?cur)"
    by blast
  also have "\<dots> =
     [\<lparr>topic = ''General'', content = ''Intro text'', chunk_count = 1\<rparr>,
      \<lparr>topic = ''AUTO INSURANCE'', content = ''Auto Insurance basics More details'',
        chunk_count = 2\<rparr>,
      \<lparr>topic = ''HEALTH INSURANCE'', content = ''life insurance and HEALTH insurance'',
        chunk_count = 1\<rparr>]"
    unfolding cur by (simp add: spec_bucket_def chunks_of_def)
  finally show ?thesis
    using cur by (rule conjI)
qed

subsection \<open>The sample text\<close>

lemma strip_sample:
  "strip insurance_text =
     join ''\<newline>    \<newline>    '' [sample_auto, sample_life, sample_property]"
  unfolding sample_auto_def sample_life_def sample_property_def by code_simp

lemma lower_join: "lower (join sep ss) = join (lower sep) (map lower ss)"
  by (induction sep ss rule: join.induct) (simp_all add: lower_def)

lemma lower_separator: "lower ''\<newline>    \<newline>    '' = ''\<newline>    \<newline>    ''"
  by code_simp

lemma lower_sample_auto:
  "lower sample_auto = ''auto insurance\<newline>    auto insurance protects against financial loss in the event of an accident. \<newline>    it is a contract between the policyholder and the insurance company.''"
  unfolding sample_auto_def by code_simp

lemma lower_sample_life:
  "lower sample_life = ''life insurance\<newline>    life insurance provides financial protection to beneficiaries upon the death of the insured.\<newline>    there are two main types: term and whole life insurance.''"
  unfolding sample_life_def by code_simp

lemma lower_sample_property:
  "lower sample_property = ''property insurance\<newline>    property insurance covers damage to property from various perils.\<newline>    this includes coverage for homes, businesses, and other structures.''"
  unfolding sample_property_def by code_simp

lemma lower_sample_whole:
  "lower (strip insurance_text) =
     join ''\<newline>    \<newline>    '' [lower sample_auto, lower sample_life, lower sample_property]"
  by (simp only: strip_sample lower_join lower_separator list.map)

lemma markers_sample_whole:
  "spec_markers_in (strip insurance_text) =
     [''AUTO INSURANCE'', ''LIFE INSURANCE'', ''PROPERTY INSURANCE'']"
  unfolding spec_markers_in_def lower_sample_whole
  by (simp add: topic_indicators_def lower_indicators
      lower_sample_auto lower_sample_life lower_sample_property contains_def sublist_code)

lemma strip_sample_not_blank: "strip insurance_text \<noteq> []"
  by (simp add: strip_sample sample_auto_def)

lemma single_chunk_bucket:
  "group_by_topic [strip insurance_text] =
     [\<lparr>topic = ''PROPERTY INSURANCE'', content = strip insurance_text, chunk_count = 1\<rparr>]"
proof -
  have "spec_current_topics ''General'' [strip insurance_text] = [''PROPERTY INSURANCE'']"
    by (simp add: spec_topic_after_def markers_sample_whole)
  then show ?thesis
    by (simp add: group_by_topic_buckets spec_bucket_def chunks_of_def
        del: spec_current_topics.simps)
qed

text \<open>
  Claim C4. The claim asks for three buckets on the sample text: \<open>AUTO INSURANCE\<close>,
  \<open>LIFE INSURANCE\<close>, \<open>PROPERTY INSURANCE\<close>. The demonstration routine does not produce
  them. When the constructor of the splitter succeeds and the sentence parser gives the
  sample back as one node (its stripped text: the sample is far shorter than the chunk
  size of 512), all three markers occur in that one chunk, the scan of the marker list
  ends on the last of them, and \<open>split_by_topics\<close> returns a single bucket, labelled
  \<open>PROPERTY INSURANCE\<close>, that holds the whole text. When \<open>from_defaults\<close> raises, the
  constructor raises and the routine returns nothing.
\<close>

theorem sample_text_single_bucket:
  "(TokenTextSplitter lib 512 50 = Inr ts \<and> SentenceSplitter lib 512 50 = Inr ss \<and>
    from_defaults lib ts = Inr tp \<and> from_defaults lib ss = Inr sp \<and>
    sp insurance_text = [strip insurance_text] \<longrightarrow>
      (\<exists>r. process_insurance_text lib = Inr r \<and>
         topic_chunks r =
           [\<lparr>topic = ''PROPERTY INSURANCE'', content = strip insurance_text,
              chunk_count = 1\<rparr>] \<and>
         length (topic_chunks r) \<noteq> 3)) \<and>
   (TokenTextSplitter lib 512 50 = Inr ts \<and> SentenceSplitter lib 512 50 = Inr ss \<and>
    from_defaults lib ts = Inl e \<longrightarrow>
      process_insurance_text lib = Inl e)"
  by (simp add: process_insurance_text_def init_def split_by_topics_def single_chunk_bucket)

theorem sample_text_single_bucket_witness:
  "(\<exists>r. process_insurance_text uncut_llama_index = Inr r \<and>
      topic_chunks r =
        [\<lparr>topic = ''PROPERTY INSURANCE'', content = strip insurance_text,
           chunk_count = 1\<rparr>]) \<and>
   process_insurance_text refusing_llama_index =
     Inl (ExternalError ''TypeError: unexpected keyword argument text_splitter'')"
proof -
  let ?sp = "\<lambda>text. if strip text = [] then [] else [strip text]"
  let ?e = "ExternalError ''TypeError: unexpected keyword argument text_splitter''"
  have u: "TokenTextSplitter uncut_llama_index 512 50 = Inr () \<and>
      SentenceSplitter uncut_llama_index 512 50 = Inr () \<and>
      from_defaults uncut_llama_index () = Inr ?sp \<and>
      from_defaults uncut_llama_index () = Inr ?sp \<and>
      ?sp insurance_text = [strip insurance_text]"
    by (simp add: uncut_llama_index_def strip_sample_not_blank)
  have r: "TokenTextSplitter refusing_llama_index 512 50 = Inr () \<and>
      SentenceSplitter refusing_llama_index 512 50 = Inr () \<and>
      from_defaults refusing_llama_index () = Inl ?e"
    by (simp add: refusing_llama_index_def)
  from sample_text_single_bucket [of uncut_llama_index "()" "()" ?sp ?sp, THEN conjunct1] u
  have a: "\<exists>r. process_insurance_text uncut_llama_index = Inr r \<and>
      topic_chunks r =
        [\<lparr>topic = ''PROPERTY INSURANCE'', content = strip insurance_text,
           chunk_count = 1\<rparr>]"
    by blast
  from sample_text_single_bucket [of refusing_llama_index "()" "()" _ _ ?e, THEN conjunct2] r
  have b: "process_insurance_text refusing_llama_index = Inl ?e"
    by blast
  from a b show ?thesis
    by (rule conjI)
qed

section \<open>The indexing pipeline\<close>


lemma emit_io_result: "emit_io c (w, calls) = (Inr (), (w, calls @ [c]))"
  by (simp add: emit_io_def)





section \<open>The credential of the embedding service\<close>

text \<open>
  Claim C6. When \<open>OPENAI_API_KEY\<close> is absent from the process environment at the moment
  the loader's module reads it (neither set in the environment nor supplied by the
  \<open>.env\<close> file), the import of the module raises (a \<open>KeyError\<close> for that name: the
  configuration error). The pipeline script stops there: no stage is called, the world
  is untouched, and \<open>load_data\<close> returns nothing.
\<close>

theorem missing_api_key_is_fatal:
  assumes "load_dotenv dotenv_file env ''OPENAI_API_KEY'' = None"
  shows "import_text_splitter dotenv_file env = Inl (KeyError ''OPENAI_API_KEY'') \<and>
     pipeline_main svc dotenv_file env (w, []) = (Inl (KeyError ''OPENAI_API_KEY''), (w, [])) \<and>
     env ''OPENAI_API_KEY'' = None \<and> dotenv_file ''OPENAI_API_KEY'' = None"
  using assms
  by (auto simp: import_text_splitter_def pipeline_main_def bind_io_def lift_io_def
      load_dotenv_def map_add_def split: option.splits)

theorem missing_api_key_is_fatal_witness:
  "pipeline_main toy_services [''NEO4J_URI'' \<mapsto> ''bolt://localhost''] Map.empty ([], []) =
     (Inl (KeyError ''OPENAI_API_KEY''), ([], []))"
proof -
  have "load_dotenv [''NEO4J_URI'' \<mapsto> ''bolt://localhost''] Map.empty ''OPENAI_API_KEY'' = None"
    by (simp add: load_dotenv_def)
  from missing_api_key_is_fatal [OF this, of toy_services "[]"] show ?thesis
    by simp
qed

section \<open>The entity network of the dashboards\<close>

subsection \<open>The edges are those of the complete graph\<close>

lemma edges_inner_map:
  "edges_inner e1 rest edges =
     edges @ map (\<lambda>e2. \<lparr>source = name e1, target = name e2, weight = 1\<rparr>) rest"
  by (induction rest arbitrary: edges) simp_all

lemma drop_Suc_of_Cons: "drop i xs = y # ys \<Longrightarrow> drop (Suc i) xs = ys"
  by (metis drop_Suc list.sel(3) tl_drop)

lemma edges_outer_pairs:
  "drop i entities = xs \<Longrightarrow>
   map endpoints (edges_outer entities (enumerate i xs) edges) =
     map endpoints edges @ all_pairs (map name xs)"
proof (induction xs arbitrary: i edges)
  case Nil
  then show ?case by simp
next
  case (Cons x xs)
  from Cons.prems have "drop (Suc i) entities = xs"
    by (rule drop_Suc_of_Cons)
  from Cons.IH [OF this] this show ?case
    by (simp add: edges_inner_map endpoints_def o_def)
qed

lemma build_edges_pairs:
  "map endpoints (build_edges entities) = all_pairs (map name entities)"
  using edges_outer_pairs [of 0 entities entities "[]"] by (simp add: build_edges_def)

lemma length_all_pairs: "length (all_pairs xs) = length xs * (length xs - 1) div 2"
proof (induction xs)
  case Nil
  then show ?case by simp
next
  case (Cons x xs)
  have "2 * length xs + length xs * (length xs - 1) = Suc (length xs) * length xs"
    by (cases "length xs") simp_all
  then have "length xs + length xs * (length xs - 1) div 2 = Suc (length xs) * length xs div 2"
    by (metis div_mult_self4 zero_neq_numeral)
  with Cons.IH show ?case by simp
qed

lemma set_all_pairs_subset: "(a, b) \<in> set (all_pairs xs) \<Longrightarrow> a \<in> set xs \<and> b \<in> set xs"
  by (induction xs) auto

lemma unordered_all_pairs:
  "distinct xs \<Longrightarrow>
   unordered ` set (all_pairs xs) = {{a, b} | a b. a \<in> set xs \<and> b \<in> set xs \<and> a \<noteq> b}"
proof (induction xs)
  case Nil
  then show ?case by simp
next
  case (Cons x xs)
  then have IH: "unordered ` set (all_pairs xs) =
      {{a, b} | a b. a \<in> set xs \<and> b \<in> set xs \<and> a \<noteq> b}"
    and x: "x \<notin> set xs"
    by simp_all
  have "unordered ` set (all_pairs (x # xs)) =
      (\<lambda>b. {x, b}) ` set xs \<union> unordered ` set (all_pairs xs)"
    by (auto simp: unordered_def image_Un image_image)
  also have "\<dots> = {{a, b} | a b. a \<in> set (x # xs) \<and> b \<in> set (x # xs) \<and> a \<noteq> b}"
    unfolding IH using x by (auto simp: doubleton_eq_iff)
  finally show ?case .
qed

lemma distinct_unordered_all_pairs:
  "distinct xs \<Longrightarrow> distinct (map unordered (all_pairs xs))"
proof (induction xs)
  case Nil
  then show ?case by simp
next
  case (Cons x xs)
  then have x: "x \<notin> set xs" and d: "distinct xs" by simp_all
  have a: "distinct (map unordered (map (Pair x) xs))"
    using d x by (auto simp: distinct_map inj_on_def unordered_def doubleton_eq_iff)
  have b: "unordered ` set (map (Pair x) xs) \<inter> unordered ` set (all_pairs xs) = {}"
    using x by (auto simp: unordered_def doubleton_eq_iff dest!: set_all_pairs_subset)
  from a b Cons.IH [OF d] show ?case by (simp add: image_image)
qed

subsection \<open>The second dashboard draws a weight per edge\<close>

lemma edges_inner2_result:
  "\<exists>new w'. edges_inner2 tk e1 rest edges (w, calls) = (Inr (edges @ new), (w', calls)) \<and>
      map endpoints new = map (\<lambda>e2. (name e1, name e2)) rest"
proof (induction rest arbitrary: edges w)
  case Nil
  then show ?case by (simp add: return_io_def)
next
  case (Cons e2 rest)
  obtain wt w1 where d: "uniform tk 1 3 w = (wt, w1)"
    by (metis surj_pair)
  let ?e = "\<lparr>source = name e1, target = name e2, weight = wt\<rparr>"
  from Cons.IH [of "edges @ [?e]" w1]
  obtain new w' where
    r: "edges_inner2 tk e1 rest (edges @ [?e]) (w1, calls) = (Inr ((edges @ [?e]) @ new), (w', calls))"
    and m: "map endpoints new = map (\<lambda>e2. (name e1, name e2)) rest"
    by blast
  have "edges_inner2 tk e1 (e2 # rest) edges (w, calls) = (Inr (edges @ (?e # new)), (w', calls))"
    using d r by (simp add: bind_io_def draw_io_def)
  moreover have "map endpoints (?e # new) = map (\<lambda>e2. (name e1, name e2)) (e2 # rest)"
    using m by (simp add: endpoints_def)
  ultimately show ?case by blast
qed

lemma edges_outer2_result:
  "drop i entities = xs \<Longrightarrow>
   \<exists>edges' w'. edges_outer2 tk entities (enumerate i xs) edges (w, calls) =
        (Inr edges', (w', calls)) \<and>
      map endpoints edges' = map endpoints edges @ all_pairs (map name xs)"
proof (induction xs arbitrary: i edges w)
  case Nil
  then show ?case by (simp add: return_io_def)
next
  case (Cons x xs)
  from Cons.prems have dr: "drop (Suc i) entities = xs"
    by (rule drop_Suc_of_Cons)
  from edges_inner2_result [of tk x xs edges w calls]
  obtain new w1 where
    r1: "edges_inner2 tk x xs edges (w, calls) = (Inr (edges @ new), (w1, calls))"
    and m1: "map endpoints new = map (\<lambda>e2. (name x, name e2)) xs"
    by blast
  from Cons.IH [OF dr, of "edges @ new" w1]
  obtain edges' w' where
    r2: "edges_outer2 tk entities (enumerate (Suc i) xs) (edges @ new) (w1, calls) =
        (Inr edges', (w', calls))"
    and m2: "map endpoints edges' = map endpoints (edges @ new) @ all_pairs (map name xs)"
    by blast
  have "edges_outer2 tk entities (enumerate i (x # xs)) edges (w, calls) =
      (Inr edges', (w', calls))"
    using r1 r2 dr by (simp add: bind_io_def)
  moreover have "map endpoints edges' = map endpoints edges @ all_pairs (map name (x # xs))"
    using m1 m2 by (simp add: o_def)
  ultimately show ?case by blast
qed

lemma build_edges2_result:
  "\<exists>edges w'. build_edges2 tk entities (w, calls) = (Inr edges, (w', calls)) \<and>
      map endpoints edges = all_pairs (map name entities)"
  using edges_outer2_result [of 0 entities entities tk "[]" w calls]
  by (simp add: build_edges2_def)

subsection \<open>The graph that networkx builds from the edge rows\<close>

lemma g_edges_add_node [simp]: "g_edges (add_node n g) = g_edges g"
  by (simp add: add_node_def)

lemma fold_add_edge_fresh:
  "distinct (map unordered ps) \<Longrightarrow>
   unordered ` set ps \<inter> unordered ` set (g_edges g) = {} \<Longrightarrow>
   g_edges (fold add_edge ps g) = g_edges g @ ps"
proof (induction ps arbitrary: g)
  case Nil
  then show ?case by simp
next
  case (Cons p ps)
  obtain u v where p: "p = (u, v)" by (cases p)
  have fresh: "unordered p \<notin> unordered ` set (g_edges g)"
    using Cons.prems(2) by auto
  have "(u, v) \<notin> set (g_edges g)" "(v, u) \<notin> set (g_edges g)"
    using fresh unfolding p unordered_def image_iff by (force simp: insert_commute)+
  then have step: "g_edges (add_edge p g) = g_edges g @ [p]"
    by (simp add: add_edge_def p Let_def)
  have d: "distinct (map unordered ps)" and np: "unordered p \<notin> unordered ` set ps"
    using Cons.prems(1) by simp_all
  have "unordered ` set ps \<inter> unordered ` set (g_edges (add_edge p g)) = {}"
    unfolding step using Cons.prems(2) np by auto
  from Cons.IH [OF d this] show ?case
    by (simp add: step)
qed

lemma from_pandas_edgelist_complete:
  assumes "edges \<noteq> []" and "map endpoints edges = all_pairs names" and "distinct names"
  shows "\<exists>G. from_pandas_edgelist (DataFrame [''source'', ''target'', ''weight''] edges) = Inr G \<and>
      g_edges G = all_pairs names"
proof -
  have "map (\<lambda>r. (source r, target r)) edges = all_pairs names"
    using assms(2) by (simp add: endpoints_def [abs_def])
  moreover have "g_edges (fold add_edge (all_pairs names) \<lparr>g_nodes = [], g_edges = []\<rparr>) =
      all_pairs names"
    using fold_add_edge_fresh [OF distinct_unordered_all_pairs [OF assms(3)],
        of "\<lparr>g_nodes = [], g_edges = []\<rparr>"]
    by simp
  ultimately show ?thesis
    using assms(1) by (simp add: from_pandas_edgelist_def DataFrame_def)
qed

text \<open>
  Claim C2. For a list of \<open>N\<close> retrieved entities, \<open>N\<close> at least 2, with pairwise distinct
  names, \<open>plot_entity_network\<close> of either dashboard builds exactly \<open>N (N - 1) / 2\<close>
  edges, one per unordered pair of entities: the edge rows join every earlier entity
  to every later one, no two of them join the same two names, and together they join
  every two distinct names. In the second dashboard this holds whatever weights are
  drawn, and the graph that networkx makes of the rows has these edges too. The
  functions take the entities only, so the relationships stored in the knowledge
  graph play no part.
\<close>

theorem complete_graph_edges:
  assumes "2 \<le> length entities" and "distinct (map name entities)"
  shows "length (build_edges entities) = length entities * (length entities - 1) div 2 \<and>
     map endpoints (build_edges entities) = all_pairs (map name entities) \<and>
     (\<exists>edges w' G.
        build_edges2 tk entities (w, calls) = (Inr edges, (w', calls)) \<and>
        length edges = length entities * (length entities - 1) div 2 \<and>
        map endpoints edges = all_pairs (map name entities) \<and>
        from_pandas_edgelist (DataFrame [''source'', ''target'', ''weight''] edges) = Inr G \<and>
        g_edges G = all_pairs (map name entities)) \<and>
     distinct (map unordered (all_pairs (map name entities))) \<and>
     unordered ` set (all_pairs (map name entities)) =
       {{a, b} | a b. a \<in> name ` set entities \<and> b \<in> name ` set entities \<and> a \<noteq> b}"
proof -
  let ?n = "length entities"
  let ?names = "map name entities"
  have len: "length (all_pairs ?names) = ?n * (?n - 1) div 2"
    using length_all_pairs [of ?names] by simp
  have v1: "length (build_edges entities) = ?n * (?n - 1) div 2"
    using len build_edges_pairs [of entities] by (metis length_map)
  obtain edges w' where
    r: "build_edges2 tk entities (w, calls) = (Inr edges, (w', calls))"
    and m: "map endpoints edges = all_pairs ?names"
    using build_edges2_result [of tk entities w calls] by blast
  have v2: "length edges = ?n * (?n - 1) div 2"
    using len m by (metis length_map)
  have "0 < ?n * (?n - 1) div 2"
  proof -
    obtain k where "?n = Suc (Suc k)"
      using assms(1) by (metis Suc_le_D numeral_2_eq_2 Suc_le_mono)
    then show ?thesis by simp
  qed
  then have "edges \<noteq> []"
    using v2 by auto
  from from_pandas_edgelist_complete [OF this m assms(2)]
  obtain G where
    g: "from_pandas_edgelist (DataFrame [''source'', ''target'', ''weight''] edges) = Inr G"
    and ge: "g_edges G = all_pairs ?names"
    by blast
  have u: "unordered ` set (all_pairs ?names) =
       {{a, b} | a b. a \<in> name ` set entities \<and> b \<in> name ` set entities \<and> a \<noteq> b}"
    using unordered_all_pairs [OF assms(2)] by simp
  have v2all: "\<exists>edges w' G.
        build_edges2 tk entities (w, calls) = (Inr edges, (w', calls)) \<and>
        length edges = ?n * (?n - 1) div 2 \<and>
        map endpoints edges = all_pairs ?names \<and>
        from_pandas_edgelist (DataFrame [''source'', ''target'', ''weight''] edges) = Inr G \<and>
        g_edges G = all_pairs ?names"
    using r v2 m g ge by (intro exI [of _ edges] exI [of _ w'] exI [of _ G]) simp
  show ?thesis
    by (intro conjI) (rule v1 build_edges_pairs v2all
        distinct_unordered_all_pairs [OF assms(2)] u)+
qed

theorem complete_graph_edges_witness:
  "length (build_edges [term_life, whole_life, premium]) = 3 \<and>
   map endpoints (build_edges [term_life, whole_life, premium]) =
     [(''Term Life'', ''Whole Life''), (''Term Life'', ''Premium''),
      (''Whole Life'', ''Premium'')] \<and>
   (\<exists>edges w' G.
      build_edges2 toy_toolkit [term_life, whole_life, premium] (0, [] :: nat list) =
        (Inr edges, (w', [])) \<and>
      length edges = 3 \<and>
      from_pandas_edgelist (DataFrame [''source'', ''target'', ''weight''] edges) = Inr G \<and>
      g_edges G =
        [(''Term Life'', ''Whole Life''), (''Term Life'', ''Premium''),
         (''Whole Life'', ''Premium'')])"
proof -
  let ?es = "[term_life, whole_life, premium]"
  have n: "2 \<le> length ?es"
    by simp
  have d: "distinct (map name ?es)"
    by (simp add: term_life_def whole_life_def premium_def)
  have p: "all_pairs (map name ?es) =
     [(''Term Life'', ''Whole Life''), (''Term Life'', ''Premium''),
      (''Whole Life'', ''Premium'')]"
    by (simp add: term_life_def whole_life_def premium_def)
  note T = complete_graph_edges [OF n d, of toy_toolkit 0 "[] :: nat list", unfolded p]
  have a: "length (build_edges ?es) = 3"
    using T [THEN conjunct1] by simp
  note b = T [THEN conjunct2, THEN conjunct1]
  from T [THEN conjunct2, THEN conjunct2, THEN conjunct1]
  obtain edges w' G where
    "build_edges2 toy_toolkit ?es (0, [] :: nat list) = (Inr edges, (w', []))"
    "length edges = length ?es * (length ?es - 1) div 2"
    "from_pandas_edgelist (DataFrame [''source'', ''target'', ''weight''] edges) = Inr G"
    "g_edges G = [(''Term Life'', ''Whole Life''), (''Term Life'', ''Premium''),
         (''Whole Life'', ''Premium'')]"
    by blast
  then have c: "\<exists>edges w' G.
      build_edges2 toy_toolkit ?es (0, [] :: nat list) = (Inr edges, (w', [])) \<and>
      length edges = 3 \<and>
      from_pandas_edgelist (DataFrame [''source'', ''target'', ''weight''] edges) = Inr G \<and>
      g_edges G =
        [(''Term Life'', ''Whole Life''), (''Term Life'', ''Premium''),
         (''Whole Life'', ''Premium'')]"
    by (intro exI [of _ edges] exI [of _ w'] exI [of _ G]) simp
  from a b c show ?thesis
    by (intro conjI)
qed

subsection \<open>What the dashboards draw\<close>

lemma render_sources_result:
  "render_sources i summaries (w, calls) =
     (Inr (), (w, calls @ map (\<lambda>(j, s). Source j s) (enumerate i summaries)))"
  by (induction summaries arbitrary: i calls)
     (simp_all add: return_io_def bind_io_def emit_io_def)

lemma render_badges_result:
  "render_badges i names (w, calls) =
     (Inr (), (w, calls @ map (\<lambda>(j, n). TermBadge (j mod 3) n) (enumerate i names)))"
  by (induction names arbitrary: i calls)
     (simp_all add: return_io_def bind_io_def emit_io_def)

lemma not_plot_sources: "\<not> list_ex is_plot (map (\<lambda>(j, s). Source j s) xs)"
  by (induction xs) auto

lemma build_edges_empty_iff: "build_edges entities = [] \<longleftrightarrow> length entities < 2"
proof -
  have "length (build_edges entities) = length entities * (length entities - 1) div 2"
    using build_edges_pairs [of entities] length_all_pairs [of "map name entities"]
    by (metis length_map)
  moreover have "length entities * (length entities - 1) div 2 = 0 \<longleftrightarrow> length entities < 2"
  proof (cases "length entities")
    case 0
    then show ?thesis by simp
  next
    case (Suc k)
    then show ?thesis by (cases k) simp_all
  qed
  ultimately show ?thesis by (metis length_0_conv)
qed

lemma scatter_3d_origin:
  "rows df = rs \<Longrightarrow>
   scatter_3d df (replicate (length rs) 0) (replicate (length rs) 0) (replicate (length rs) 0) =
     map (\<lambda>r. \<lparr>pt_x = 0, pt_y = 0, pt_z = 0, pt_text = node_id r, pt_color = node_type r\<rparr>) rs"
proof -
  have "zip rs (zip (replicate (length rs) a) (zip (replicate (length rs) b)
      (replicate (length rs) c))) = map (\<lambda>r. (r, a, b, c)) rs" for a b c :: int
    by (induction rs) simp_all
  then show "rows df = rs \<Longrightarrow> ?thesis"
    by (simp add: scatter_3d_def o_def)
qed

text \<open>
  Claim C8. In the first dashboard, whenever the network plot is produced (which is
  for two retrieved entities or more), the figure has one point per entity, every
  point is at \<open>x = y = z = 0\<close>, its text is the entity's name and its colour is keyed
  to the entity's type. With fewer than two entities nothing is drawn.
\<close>

theorem origin_plot:
  "(2 \<le> length entities \<longrightarrow>
      (\<exists>fig. plot_entity_network entities (w, calls) =
                (Inr (), (w, calls @ [PlotlyChart fig])) \<and>
         length fig = length entities \<and>
         (\<forall>i < length entities.
            fig ! i = \<lparr>pt_x = 0, pt_y = 0, pt_z = 0,
                       pt_text = name (entities ! i), pt_color = type (entities ! i)\<rparr>))) \<and>
   (length entities < 2 \<longrightarrow>
      plot_entity_network entities (w, calls) = (Inr (), (w, calls)))"
proof (intro conjI impI)
  assume n: "2 \<le> length entities"
  let ?fig = "map (\<lambda>e. \<lparr>pt_x = 0, pt_y = 0, pt_z = 0, pt_text = name e, pt_color = type e\<rparr>)
      entities"
  have ne: "entities \<noteq> []" "build_edges entities \<noteq> []"
    using n build_edges_empty_iff [of entities] by auto
  let ?rows = "map (\<lambda>e. \<lparr>node_id = name e, node_type = type e\<rparr>) entities"
  have "scatter_3d (DataFrame [''id'', ''type''] ?rows)
      (replicate (length ?rows) 0) (replicate (length ?rows) 0) (replicate (length ?rows) 0) =
      map (\<lambda>r. \<lparr>pt_x = 0, pt_y = 0, pt_z = 0, pt_text = node_id r, pt_color = node_type r\<rparr>)
        ?rows"
    by (rule scatter_3d_origin) (simp add: DataFrame_def)
  then have "plot_entity_network entities (w, calls) = (Inr (), (w, calls @ [PlotlyChart ?fig]))"
    using ne by (simp add: plot_entity_network_def DataFrame_def df_empty_def emit_io_def o_def)
  then show "\<exists>fig. plot_entity_network entities (w, calls) =
                (Inr (), (w, calls @ [PlotlyChart fig])) \<and>
         length fig = length entities \<and>
         (\<forall>i < length entities.
            fig ! i = \<lparr>pt_x = 0, pt_y = 0, pt_z = 0,
                       pt_text = name (entities ! i), pt_color = type (entities ! i)\<rparr>)"
    by (intro exI [of _ ?fig]) simp
next
  assume "length entities < 2"
  then have "build_edges entities = []"
    by (simp add: build_edges_empty_iff)
  then show "plot_entity_network entities (w, calls) = (Inr (), (w, calls))"
    by (simp add: plot_entity_network_def DataFrame_def df_empty_def return_io_def)
qed

theorem origin_plot_witness:
  "plot_entity_network [term_life, premium] (0 :: nat, [Title]) =
     (Inr (), (0, [Title, PlotlyChart
        [\<lparr>pt_x = 0, pt_y = 0, pt_z = 0, pt_text = ''Term Life'', pt_color = ''Product''\<rparr>,
         \<lparr>pt_x = 0, pt_y = 0, pt_z = 0, pt_text = ''Premium'', pt_color = ''Concept''\<rparr>]])) \<and>
   plot_entity_network [term_life] (0 :: nat, [Title]) = (Inr (), (0, [Title]))"
proof -
  note T2 = origin_plot [of "[term_life, premium]" "0 :: nat" "[Title]", THEN conjunct1]
  note T1 = origin_plot [of "[term_life]" "0 :: nat" "[Title]", THEN conjunct2]
  have "2 \<le> length [term_life, premium]"
    by simp
  with T2 obtain fig where
    r: "plot_entity_network [term_life, premium] (0 :: nat, [Title]) =
        (Inr (), (0, [Title] @ [PlotlyChart fig]))"
    and l: "length fig = length [term_life, premium]"
    and p: "\<forall>i < length [term_life, premium].
            fig ! i = \<lparr>pt_x = 0, pt_y = 0, pt_z = 0,
                       pt_text = name ([term_life, premium] ! i),
                       pt_color = type ([term_life, premium] ! i)\<rparr>"
    by blast
  from p have "fig ! 0 = \<lparr>pt_x = 0, pt_y = 0, pt_z = 0, pt_text = ''Term Life'',
        pt_color = ''Product''\<rparr>"
    and "fig ! 1 = \<lparr>pt_x = 0, pt_y = 0, pt_z = 0, pt_text = ''Premium'',
        pt_color = ''Concept''\<rparr>"
    by (simp_all add: term_life_def premium_def)
  with l have "fig =
        [\<lparr>pt_x = 0, pt_y = 0, pt_z = 0, pt_text = ''Term Life'', pt_color = ''Product''\<rparr>,
         \<lparr>pt_x = 0, pt_y = 0, pt_z = 0, pt_text = ''Premium'', pt_color = ''Concept''\<rparr>]"
    by (simp add: list_eq_iff_nth_eq less_Suc_eq numeral_nat)
  with r have a: "plot_entity_network [term_life, premium] (0 :: nat, [Title]) =
     (Inr (), (0, [Title, PlotlyChart
        [\<lparr>pt_x = 0, pt_y = 0, pt_z = 0, pt_text = ''Term Life'', pt_color = ''Product''\<rparr>,
         \<lparr>pt_x = 0, pt_y = 0, pt_z = 0, pt_text = ''Premium'', pt_color = ''Concept''\<rparr>]]))"
    by simp
  have "length [term_life] < 2"
    by simp
  with T1 have b: "plot_entity_network [term_life] (0 :: nat, [Title]) = (Inr (), (0, [Title]))"
    by blast
  from a b show ?thesis
    by (rule conjI)
qed

text \<open>
  Claim C7. For a submitted query whose retrieval returns no entity, neither dashboard
  calls \<open>plot_entity_network\<close>: no chart is drawn, nothing is raised, and the answer is
  drawn, followed by the sources.
\<close>

theorem no_entities_no_network:
  assumes "query \<noteq> []"
    and "generate generator query w = (Inr response, w1)"
    and "get_entities generator query w1 = (Inr [], w2)"
    and "get_community_summaries generator query w2 = (Inr summaries, w3)"
  shows "render_main generator query (w, []) =
       (Inr (), (w3, [Title, QueryInput, Spinner, AnswerHeading, Answer response,
                      ConceptsHeading, SourcesHeading] @
                     map (\<lambda>(i, s). Source i s) (enumerate 1 summaries))) \<and>
     render_main2 tk generator query (w, []) =
       (Inr (), (w3, [Title, QueryInput, Spinner, Answer response] @
                     map (\<lambda>(i, s). Source i s) (enumerate 1 summaries))) \<and>
     \<not> list_ex is_plot (snd (snd (render_main generator query (w, [])))) \<and>
     \<not> list_ex is_plot (snd (snd (render_main2 tk generator query (w, [])))) \<and>
     list_ex (\<lambda>c. c = Answer response) (snd (snd (render_main generator query (w, [])))) \<and>
     list_ex (\<lambda>c. c = Answer response) (snd (snd (render_main2 tk generator query (w, []))))"
proof -
  have r1: "render_main generator query (w, []) =
       (Inr (), (w3, [Title, QueryInput, Spinner, AnswerHeading, Answer response,
                      ConceptsHeading, SourcesHeading] @
                     map (\<lambda>(i, s). Source i s) (enumerate 1 summaries)))"
    using assms
    by (simp add: render_main_def bind_io_def emit_io_def ext_io_def return_io_def
        render_sources_result)
  have r2: "render_main2 tk generator query (w, []) =
       (Inr (), (w3, [Title, QueryInput, Spinner, Answer response] @
                     map (\<lambda>(i, s). Source i s) (enumerate 1 summaries)))"
    using assms
    by (simp add: render_main2_def bind_io_def emit_io_def ext_io_def return_io_def
        render_sources_result)
  show ?thesis
    unfolding r1 r2 by (simp add: not_plot_sources)
qed

theorem no_entities_no_network_witness:
  "render_main (toy_generator []) ''What is term life insurance?'' (0, []) =
     (Inr (), (0, [Title, QueryInput, Spinner, AnswerHeading,
                   Answer ''Answer to: What is term life insurance?'',
                   ConceptsHeading, SourcesHeading,
                   Source 1 ''Summary A'', Source 2 ''Summary B''])) \<and>
   render_main2 toy_toolkit (toy_generator []) ''What is term life insurance?'' (0, []) =
     (Inr (), (0, [Title, QueryInput, Spinner,
                   Answer ''Answer to: What is term life insurance?'',
                   Source 1 ''Summary A'', Source 2 ''Summary B'']))"
proof -
  let ?q = "''What is term life insurance?''"
  have q: "?q \<noteq> []"
    by simp
  have g: "generate (toy_generator []) ?q 0 = (Inr (''Answer to: '' @ ?q), 0)"
    and e: "get_entities (toy_generator []) ?q 0 = (Inr [], 0)"
    and s: "get_community_summaries (toy_generator []) ?q 0 =
      (Inr [''Summary A'', ''Summary B''], 0)"
    by (simp_all add: toy_generator_def)
  note T = no_entities_no_network [OF q g e s, of toy_toolkit]
  from T [THEN conjunct1] T [THEN conjunct2, THEN conjunct1] show ?thesis
    by (simp add: enumerate_eq_zip upt_rec)
qed

text \<open>
  Claim C9. In the second dashboard, for a submitted query whose retrieval returns
  exactly one entity, the guard (which asks only whether the list is non-empty) lets
  \<open>plot_entity_network\<close> run. No pair of entities exists, so the frame of edge rows is
  empty and has no column; reading its column \<open>source\<close> raises. \<open>render_main\<close> ends in
  that error after the size of the one node was drawn: the answer is on the page,
  no chart, no list of terms and no source.
\<close>

theorem single_entity_plot_fails:
  assumes "query \<noteq> []"
    and "generate generator query w = (Inr response, w1)"
    and "get_entities generator query w1 = (Inr [e], w2)"
    and "get_community_summaries generator query w2 = (Inr summaries, w3)"
  shows "plot_entity_network2 tk [e] (w3, calls) =
       (Inl (KeyError ''source''), (snd (randint tk 20 40 w3), calls)) \<and>
     render_main2 tk generator query (w, []) =
       (Inl (KeyError ''source''),
        (snd (randint tk 20 40 w3), [Title, QueryInput, Spinner, Answer response]))"
proof -
  obtain sz w4 where d: "randint tk 20 40 w3 = (sz, w4)"
    by (metis surj_pair)
  have p: "plot_entity_network2 tk [e] (w3, cs) = (Inl (KeyError ''source''), (w4, cs))"
    for cs :: "'b trace list ui_call list"
    using d
    by (simp add: plot_entity_network2_def build_edges2_def bind_io_def draw_io_def
        return_io_def lift_io_def from_pandas_edgelist_def DataFrame_def)
  have "render_main2 tk generator query (w, []) =
       (Inl (KeyError ''source''), (w4, [Title, QueryInput, Spinner, Answer response]))"
    using assms p [of "[Title, QueryInput, Spinner, Answer response]"]
    by (simp add: render_main2_def bind_io_def emit_io_def ext_io_def)
  with p [of calls] d show ?thesis
    by simp
qed

theorem single_entity_plot_fails_witness:
  "render_main2 toy_toolkit (toy_generator [whole_life]) ''What is whole life?'' (0, []) =
     (Inl (KeyError ''source''),
      (1, [Title, QueryInput, Spinner, Answer ''Answer to: What is whole life?'']))"
proof -
  let ?q = "''What is whole life?''"
  have q: "?q \<noteq> []"
    by simp
  have g: "generate (toy_generator [whole_life]) ?q 0 = (Inr (''Answer to: '' @ ?q), 0)"
    and e: "get_entities (toy_generator [whole_life]) ?q 0 = (Inr [whole_life], 0)"
    and s: "get_community_summaries (toy_generator [whole_life]) ?q 0 =
      (Inr [''Summary A'', ''Summary B''], 0)"
    by (simp_all add: toy_generator_def)
  from single_entity_plot_fails [OF q g e s, of toy_toolkit, THEN conjunct2] show ?thesis
    by (simp add: toy_toolkit_def)
qed

end
